theory Spec2Isabelle
  imports Main "HOL-Library.Sublist"
begin

section \<open>Program state, exceptions and statements\<close>

text \<open>
  The classes of exception that the driver's \<^verbatim>\<open>except\<close> clauses tell apart.
  \<^verbatim>\<open>OtherException\<close> stands for every other subclass of \<^verbatim>\<open>Exception\<close>,
  \<^verbatim>\<open>BaseExceptionOnly\<close> for a \<^verbatim>\<open>BaseException\<close> outside \<^verbatim>\<open>Exception\<close>
  (such as \<^verbatim>\<open>KeyboardInterrupt\<close>).
\<close>

datatype exc_class =
    FileNotFoundError
  | SyntaxError
  | NotImplementedError
  | OtherException
  | BaseExceptionOnly

text \<open>An exception object: its class and the text \<^verbatim>\<open>str(e)\<close>.\<close>

record pyexc =
  exc_class :: exc_class
  exc_str :: string

text \<open>
  The program state: the strings handed to \<^verbatim>\<open>print\<close> so far, one entry per call,
  and everything else (\<open>world\<close>).
\<close>

record 'w pystate =
  stdout :: "string list"
  world :: 'w

type_synonym ('w, 'a) action = "'w pystate \<Rightarrow> (pyexc + 'a) \<times> 'w pystate"

definition print_line :: "string \<Rightarrow> ('w, unit) action" where
  "print_line s st = (Inr (), st\<lparr>stdout := stdout st @ [s]\<rparr>)"

definition skip :: "('w, unit) action" where
  "skip st = (Inr (), st)"

definition raise :: "pyexc \<Rightarrow> ('w, 'a) action" where
  "raise e st = (Inl e, st)"

definition return :: "'a \<Rightarrow> ('w, 'a) action" where
  "return x st = (Inr x, st)"

text \<open>Two statements in sequence: the second runs unless the first raised.\<close>

definition seq :: "('w, unit) action \<Rightarrow> ('w, 'a) action \<Rightarrow> ('w, 'a) action" where
  "seq a b st = (case a st of (Inl e, st') \<Rightarrow> (Inl e, st') | (Inr _, st') \<Rightarrow> b st')"

definition bind :: "('w, 'a) action \<Rightarrow> ('a \<Rightarrow> ('w, 'b) action) \<Rightarrow> ('w, 'b) action" where
  "bind a f st = (case a st of (Inl e, st') \<Rightarrow> (Inl e, st') | (Inr x, st') \<Rightarrow> f x st')"

text \<open>A \<^verbatim>\<open>for\<close> loop over a list: it stops at the first exception.\<close>

fun for_each :: "('a \<Rightarrow> ('w, unit) action) \<Rightarrow> 'a list \<Rightarrow> ('w, unit) action" where
  "for_each f [] = skip"
| "for_each f (x # xs) = seq (f x) (for_each f xs)"

lemma for_each_cong [fundef_cong]:
  "xs = ys \<Longrightarrow> (\<And>x. x \<in> set ys \<Longrightarrow> f x = g x) \<Longrightarrow> for_each f xs = for_each g ys"
  by (induction ys arbitrary: xs) auto

section \<open>Formatting\<close>

text \<open>\<^verbatim>\<open>' ' * indent\<close>\<close>

definition spaces :: "nat \<Rightarrow> string" where
  "spaces n = replicate n CHR '' ''"

definition digit_char :: "nat \<Rightarrow> char" where
  "digit_char n = ''0123456789'' ! n"

function str_nat :: "nat \<Rightarrow> string" where
  "str_nat n = (if n < 10 then [digit_char n] else str_nat (n div 10) @ [digit_char (n mod 10)])"
  by pat_completeness auto
termination
  by (relation "measure id") auto

declare str_nat.simps [simp del]

text \<open>\<^verbatim>\<open>str(i)\<close> for an integer.\<close>

definition str_int :: "int \<Rightarrow> string" where
  "str_int i = (if i < 0 then CHR ''-'' # str_nat (nat (- i)) else str_nat (nat i))"

text \<open>\<^verbatim>\<open>str(b)\<close> for a boolean.\<close>

definition str_bool :: "bool \<Rightarrow> string" where
  "str_bool b = (if b then ''True'' else ''False'')"

text \<open>
  A float is carried as the text \<^verbatim>\<open>str\<close> gives for it (its shortest
  representation that reads back to the same float); the program does no float arithmetic.
\<close>

datatype pyfloat = PyFloat string

fun str_float :: "pyfloat \<Rightarrow> string" where
  "str_float (PyFloat s) = s"

text \<open>Truth value of an optional string: \<^verbatim>\<open>None\<close> and \<^verbatim>\<open>""\<close> are false.\<close>

fun truthy_str :: "string option \<Rightarrow> bool" where
  "truthy_str None = False"
| "truthy_str (Some s) = (s \<noteq> [])"

section \<open>AST nodes\<close>

text \<open>
  One constructor per class of \<^verbatim>\<open>ast_nodes.py\<close>, with the fields \<^verbatim>\<open>__init__\<close>
  stores. \<open>ASTNode\<close> is an instance of the base class itself. An optional node is
  \<^verbatim>\<open>None\<close> or a node (a node object is always true); an alias is \<^verbatim>\<open>None\<close> or a string;
  \<^verbatim>\<open>keyword_args\<close> is a dict, held as the list of its items in insertion order.
\<close>

datatype node =
    ASTNode
  | IntLiteralNode int
  | FloatLiteralNode pyfloat
  | StringLiteralNode string bool
  | BoolLiteralNode bool
  | NoneLiteralNode
  | IdentifierNode string
  | BinaryOpNode string node node
  | AssignmentNode node node
  | FunctionCallNode node "node list" "(string \<times> node) list"
  | ParameterNode string "node option" bool
  | FunctionDefNode string "node list" "node list"
  | ClassDefNode string "node list" "node list"
  | ReturnNode "node option"
  | ImportNode string "string option"
  | FromImportNode string "(string \<times> string option) list"
  | IfNode node "node list" "node list"
  | WhileNode node "node list"
  | ForNode node node "node list"
  | AttributeNode node string
  | ListNode "node list"
  | DictNode "(node \<times> node) list"
  | SubscriptNode node node
  | PassNode
  | BreakNode
  | ContinueNode

definition not_implemented :: pyexc where
  "not_implemented =
     \<lparr>exc_class = NotImplementedError, exc_str = ''Each AST node must implement print_node''\<rparr>"

fun print_node :: "node \<Rightarrow> nat \<Rightarrow> ('w, unit) action" where
  "print_node ASTNode indent = raise not_implemented"
| "print_node (IntLiteralNode v) indent =
     print_line (spaces indent @ ''IntLiteral('' @ str_int v @ '')'')"
| "print_node (FloatLiteralNode v) indent =
     print_line (spaces indent @ ''FloatLiteral('' @ str_float v @ '')'')"
| "print_node (StringLiteralNode v is_f_string) indent =
     (let node_type = (if is_f_string then ''FString'' else ''StringLiteral'')
      in print_line (spaces indent @ node_type @ ''(\"'' @ v @ ''\")''))"
| "print_node (BoolLiteralNode v) indent =
     print_line (spaces indent @ ''BoolLiteral('' @ str_bool v @ '')'')"
| "print_node NoneLiteralNode indent = print_line (spaces indent @ ''None'')"
| "print_node (IdentifierNode name) indent =
     print_line (spaces indent @ ''Identifier('' @ name @ '')'')"
| "print_node (BinaryOpNode op left right) indent =
     seq (print_line (spaces indent @ ''BinaryOp('' @ op @ '')''))
    (seq (print_node left (indent + 2))
         (print_node right (indent + 2)))"
| "print_node (AssignmentNode target v) indent =
     seq (print_line (spaces indent @ ''Assignment''))
    (seq (print_line (spaces (indent + 2) @ ''Target:''))
    (seq (print_node target (indent + 4))
    (seq (print_line (spaces (indent + 2) @ ''Value:''))
         (print_node v (indent + 4)))))"
| "print_node (FunctionCallNode callable arguments keyword_args) indent =
     seq (print_line (spaces indent @ ''FunctionCall''))
    (seq (print_line (spaces (indent + 2) @ ''Callable:''))
    (seq (print_node callable (indent + 4))
    (seq (if arguments \<noteq> [] then
            seq (print_line (spaces (indent + 2) @ ''Arguments:''))
                (for_each (\<lambda>arg. print_node arg (indent + 4)) arguments)
          else skip)
         (if keyword_args \<noteq> [] then
            seq (print_line (spaces (indent + 2) @ ''Keyword Arguments:''))
                (for_each (\<lambda>(key, v).
                   seq (print_line (spaces (indent + 4) @ key @ '':''))
                       (print_node v (indent + 6))) keyword_args)
          else skip))))"
| "print_node (ParameterNode name default_value is_keyword_only) indent =
     (let param_info = name;
          param_info = (if is_keyword_only then param_info @ '', keyword-only'' else param_info)
      in seq (print_line (spaces indent @ ''Parameter('' @ param_info @ '')''))
             (case default_value of
                Some dv \<Rightarrow>
                  seq (print_line (spaces (indent + 2) @ ''Default Value:''))
                      (print_node dv (indent + 4))
              | None \<Rightarrow> skip))"
| "print_node (FunctionDefNode name parameters body) indent =
     seq (print_line (spaces indent @ ''FunctionDef('' @ name @ '')''))
    (seq (print_line (spaces (indent + 2) @ ''Parameters:''))
    (seq (for_each (\<lambda>param. print_node param (indent + 4)) parameters)
    (seq (print_line (spaces (indent + 2) @ ''Body:''))
         (for_each (\<lambda>stmt. print_node stmt (indent + 4)) body))))"
| "print_node (ClassDefNode name bases body) indent =
     seq (print_line (spaces indent @ ''ClassDef('' @ name @ '')''))
    (seq (if bases \<noteq> [] then
            seq (print_line (spaces (indent + 2) @ ''Bases:''))
                (for_each (\<lambda>base. print_node base (indent + 4)) bases)
          else skip)
    (seq (print_line (spaces (indent + 2) @ ''Body:''))
         (for_each (\<lambda>stmt. print_node stmt (indent + 4)) body)))"
| "print_node (ReturnNode v) indent =
     seq (print_line (spaces indent @ ''Return''))
         (case v of Some x \<Rightarrow> print_node x (indent + 2) | None \<Rightarrow> skip)"
| "print_node (ImportNode module alias) indent =
     (let import_info = module;
          import_info = (if truthy_str alias then import_info @ '' as '' @ the alias
                         else import_info)
      in print_line (spaces indent @ ''Import('' @ import_info @ '')''))"
| "print_node (FromImportNode module imports) indent =
     seq (print_line (spaces indent @ ''FromImport('' @ module @ '')''))
    (seq (print_line (spaces (indent + 2) @ ''Names:''))
         (for_each (\<lambda>(name, alias).
            (let import_info = name;
                 import_info = (if truthy_str alias then import_info @ '' as '' @ the alias
                                else import_info)
             in print_line (spaces (indent + 4) @ import_info))) imports))"
| "print_node (IfNode condition then_body else_body) indent =
     seq (print_line (spaces indent @ ''If''))
    (seq (print_line (spaces (indent + 2) @ ''Condition:''))
    (seq (print_node condition (indent + 4))
    (seq (print_line (spaces (indent + 2) @ ''Then:''))
    (seq (for_each (\<lambda>stmt. print_node stmt (indent + 4)) then_body)
         (if else_body \<noteq> [] then
            seq (print_line (spaces (indent + 2) @ ''Else:''))
                (for_each (\<lambda>stmt. print_node stmt (indent + 4)) else_body)
          else skip)))))"
| "print_node (WhileNode condition body) indent =
     seq (print_line (spaces indent @ ''While''))
    (seq (print_line (spaces (indent + 2) @ ''Condition:''))
    (seq (print_node condition (indent + 4))
    (seq (print_line (spaces (indent + 2) @ ''Body:''))
         (for_each (\<lambda>stmt. print_node stmt (indent + 4)) body))))"
| "print_node (ForNode target iterable body) indent =
     seq (print_line (spaces indent @ ''For''))
    (seq (print_line (spaces (indent + 2) @ ''Target:''))
    (seq (print_node target (indent + 4))
    (seq (print_line (spaces (indent + 2) @ ''Iterable:''))
    (seq (print_node iterable (indent + 4))
    (seq (print_line (spaces (indent + 2) @ ''Body:''))
         (for_each (\<lambda>stmt. print_node stmt (indent + 4)) body))))))"
| "print_node (AttributeNode v attr) indent =
     seq (print_line (spaces indent @ ''Attribute('' @ attr @ '')''))
    (seq (print_line (spaces (indent + 2) @ ''Value:''))
         (print_node v (indent + 4)))"
| "print_node (ListNode elements) indent =
     seq (print_line (spaces indent @ ''List''))
         (if elements \<noteq> [] then
            seq (print_line (spaces (indent + 2) @ ''Elements:''))
                (for_each (\<lambda>element. print_node element (indent + 4)) elements)
          else skip)"
| "print_node (DictNode items) indent =
     seq (print_line (spaces indent @ ''Dict''))
         (if items \<noteq> [] then
            seq (print_line (spaces (indent + 2) @ ''Items:''))
                (for_each (\<lambda>(key, v).
                   seq (print_line (spaces (indent + 4) @ ''Key:''))
                  (seq (print_node key (indent + 6))
                  (seq (print_line (spaces (indent + 4) @ ''Value:''))
                       (print_node v (indent + 6))))) items)
          else skip)"
| "print_node (SubscriptNode v index) indent =
     seq (print_line (spaces indent @ ''Subscript''))
    (seq (print_line (spaces (indent + 2) @ ''Value:''))
    (seq (print_node v (indent + 4))
    (seq (print_line (spaces (indent + 2) @ ''Index:''))
         (print_node index (indent + 4)))))"
| "print_node PassNode indent = print_line (spaces indent @ ''Pass'')"
| "print_node BreakNode indent = print_line (spaces indent @ ''Break'')"
| "print_node ContinueNode indent = print_line (spaces indent @ ''Continue'')"

section \<open>Constructors\<close>

text \<open>
  \<^verbatim>\<open>x or []\<close> for an argument that is \<^verbatim>\<open>None\<close> (also when omitted) or a list:
  the argument itself when it is true, that is a non-empty list, and the fresh empty list
  otherwise. A dict argument is the list of its items.
\<close>

definition py_or :: "'a list option \<Rightarrow> 'a list \<Rightarrow> 'a list" where
  "py_or x y = (case x of None \<Rightarrow> y | Some xs \<Rightarrow> if xs \<noteq> [] then xs else y)"

definition FunctionCallNode_init ::
  "node \<Rightarrow> node list option \<Rightarrow> (string \<times> node) list option \<Rightarrow> node" where
  "FunctionCallNode_init callable_obj arguments keyword_args =
     FunctionCallNode callable_obj (py_or arguments []) (py_or keyword_args [])"

definition FunctionDefNode_init :: "string \<Rightarrow> node list option \<Rightarrow> node list option \<Rightarrow> node" where
  "FunctionDefNode_init name parameters body =
     FunctionDefNode name (py_or parameters []) (py_or body [])"

definition ClassDefNode_init :: "string \<Rightarrow> node list option \<Rightarrow> node list option \<Rightarrow> node" where
  "ClassDefNode_init name bases body = ClassDefNode name (py_or bases []) (py_or body [])"

definition FromImportNode_init :: "string \<Rightarrow> (string \<times> string option) list option \<Rightarrow> node" where
  "FromImportNode_init module imports = FromImportNode module (py_or imports [])"

definition IfNode_init :: "node \<Rightarrow> node list option \<Rightarrow> node list option \<Rightarrow> node" where
  "IfNode_init condition then_body else_body =
     IfNode condition (py_or then_body []) (py_or else_body [])"

definition WhileNode_init :: "node \<Rightarrow> node list option \<Rightarrow> node" where
  "WhileNode_init condition body = WhileNode condition (py_or body [])"

definition ForNode_init :: "node \<Rightarrow> node \<Rightarrow> node list option \<Rightarrow> node" where
  "ForNode_init target iterable body = ForNode target iterable (py_or body [])"

definition ListNode_init :: "node list option \<Rightarrow> node" where
  "ListNode_init elements = ListNode (py_or elements [])"

definition DictNode_init :: "(node \<times> node) list option \<Rightarrow> node" where
  "DictNode_init items = DictNode (py_or items [])"

section \<open>The driver\<close>

text \<open>
  \<^verbatim>\<open>try: body  except ...: handler  rest\<close>, where every \<^verbatim>\<open>except\<close> clause returns:
  an exception of the body goes to the handler, otherwise control falls through to the
  statements after the \<^verbatim>\<open>try\<close>.
\<close>

definition try_except :: "('w, unit) action \<Rightarrow> (pyexc \<Rightarrow> ('w, 'a) action) \<Rightarrow> ('w, 'a) action
    \<Rightarrow> ('w, 'a) action" where
  "try_except body handler rest st =
     (case body st of (Inl e, st') \<Rightarrow> handler e st' | (Inr _, st') \<Rightarrow> rest st')"

text \<open>
  The three \<^verbatim>\<open>except\<close> clauses of \<^verbatim>\<open>main\<close>, tried in order; an exception outside
  \<^verbatim>\<open>Exception\<close> matches none of them and propagates.
\<close>

definition except_clauses :: "string \<Rightarrow> pyexc \<Rightarrow> ('w, int) action" where
  "except_clauses input_file e =
     (if exc_class e = FileNotFoundError then
        seq (print_line (''Error: Could not open file '' @ input_file)) (return 1)
      else if exc_class e = SyntaxError then
        seq (print_line (''Syntax Error: '' @ exc_str e)) (return 1)
      else if exc_class e \<noteq> BaseExceptionOnly then
        seq (print_line (''Error: '' @ exc_str e)) (return 1)
      else raise e)"

text \<open>
  The body of the \<^verbatim>\<open>try\<close> block. \<^verbatim>\<open>read_file\<close>, the lexer
  (\<^verbatim>\<open>Lexer(source).tokenize()\<close>) and the parser (\<^verbatim>\<open>Parser(tokens).parse()\<close>) are
  parameters: each is an action that returns a value or raises.
\<close>

definition try_body ::
  "(string \<Rightarrow> ('w, string) action) \<Rightarrow> (string \<Rightarrow> ('w, 't) action) \<Rightarrow>
   ('t \<Rightarrow> ('w, node list) action) \<Rightarrow> string \<Rightarrow> ('w, unit) action" where
  "try_body read_file tokenize parse input_file =
     bind (read_file input_file) (\<lambda>source.
     bind (tokenize source) (\<lambda>tokens.
     bind (parse tokens) (\<lambda>ast_nodes.
     seq (print_line (''Abstract Syntax Tree for '' @ input_file @ '':''))
    (seq (print_line (replicate 50 CHR ''-''))
         (for_each (\<lambda>node. print_node node 0) ast_nodes)))))"

text \<open>
  \<^verbatim>\<open>main\<close> from the point where \<^verbatim>\<open>args.input_file\<close> is known; the result is the
  returned exit status, or the exception that leaves \<^verbatim>\<open>main\<close>.
\<close>

definition main ::
  "(string \<Rightarrow> ('w, string) action) \<Rightarrow> (string \<Rightarrow> ('w, 't) action) \<Rightarrow>
   ('t \<Rightarrow> ('w, node list) action) \<Rightarrow> string \<Rightarrow> ('w, int) action" where
  "main read_file tokenize parse input_file =
     try_except (try_body read_file tokenize parse input_file)
       (except_clauses input_file)
       (return 0)"

section \<open>Observations of a run\<close>

text \<open>The strings an action prints when started in a state, and its result.\<close>

definition printed :: "('w, 'a) action \<Rightarrow> 'w pystate \<Rightarrow> string list" where
  "printed a st = drop (length (stdout st)) (stdout (snd (a st)))"

definition outcome :: "('w, 'a) action \<Rightarrow> 'w pystate \<Rightarrow> pyexc + 'a" where
  "outcome a st = fst (a st)"

text \<open>
  \<open>emits a r ls\<close>: from every state, \<open>a\<close> ends with result \<open>r\<close> in the same state with
  \<open>ls\<close> appended to the output.
\<close>

definition emits :: "('w, 'a) action \<Rightarrow> pyexc + 'a \<Rightarrow> string list \<Rightarrow> bool" where
  "emits a r ls = (\<forall>st. a st = (r, st\<lparr>stdout := stdout st @ ls\<rparr>))"

definition uniform :: "('w, 'a) action \<Rightarrow> bool" where
  "uniform a = (\<exists>r ls. emits a r ls)"

definition ok :: "('w, unit) action \<Rightarrow> bool" where
  "ok a = (\<exists>ls. emits a (Inr ()) ls)"

abbreviation render :: "node \<Rightarrow> nat \<Rightarrow> 'w pystate \<Rightarrow> string list" where
  "render n d st \<equiv> printed (print_node n d) st"

text \<open>The characters written to standard output: every printed string, then a newline.\<close>

definition text_of :: "string list \<Rightarrow> string" where
  "text_of ls = concat (map (\<lambda>s. s @ [CHR 0x0A]) ls)"

definition initial_state :: "unit pystate" where
  "initial_state = \<lparr>stdout = [], world = ()\<rparr>"

text \<open>A tree built from the concrete classes only: no instance of the base class in it.\<close>

fun concrete :: "node \<Rightarrow> bool" where
  "concrete ASTNode = False"
| "concrete (BinaryOpNode op left right) = (concrete left \<and> concrete right)"
| "concrete (AssignmentNode target v) = (concrete target \<and> concrete v)"
| "concrete (FunctionCallNode callable arguments keyword_args) =
     (concrete callable \<and> (\<forall>arg \<in> set arguments. concrete arg)
      \<and> (\<forall>(key, v) \<in> set keyword_args. concrete v))"
| "concrete (ParameterNode name default_value is_keyword_only) =
     (case default_value of Some dv \<Rightarrow> concrete dv | None \<Rightarrow> True)"
| "concrete (FunctionDefNode name parameters body) =
     ((\<forall>p \<in> set parameters. concrete p) \<and> (\<forall>s \<in> set body. concrete s))"
| "concrete (ClassDefNode name bases body) =
     ((\<forall>b \<in> set bases. concrete b) \<and> (\<forall>s \<in> set body. concrete s))"
| "concrete (ReturnNode v) = (case v of Some x \<Rightarrow> concrete x | None \<Rightarrow> True)"
| "concrete (IfNode condition then_body else_body) =
     (concrete condition \<and> (\<forall>s \<in> set then_body. concrete s) \<and> (\<forall>s \<in> set else_body. concrete s))"
| "concrete (WhileNode condition body) = (concrete condition \<and> (\<forall>s \<in> set body. concrete s))"
| "concrete (ForNode target iterable body) =
     (concrete target \<and> concrete iterable \<and> (\<forall>s \<in> set body. concrete s))"
| "concrete (AttributeNode v attr) = concrete v"
| "concrete (ListNode elements) = (\<forall>e \<in> set elements. concrete e)"
| "concrete (DictNode items) = (\<forall>(key, v) \<in> set items. concrete key \<and> concrete v)"
| "concrete (SubscriptNode v index) = (concrete v \<and> concrete index)"
| "concrete _ = True"

text \<open>Every string of a list starts with \<open>d\<close> spaces.\<close>

definition indented :: "nat \<Rightarrow> string list \<Rightarrow> bool" where
  "indented d ls = (\<forall>l \<in> set ls. prefix (spaces d) l)"

section \<open>The layout of a rendering\<close>

text \<open>
  The name that starts the tag line of a node, the sub-header labels it prints two columns
  in, the lines it prints four columns in (keyword names, dictionary entry labels, imported
  names), and its children with the offset at which each is rendered.
\<close>

fun variant_tag :: "node \<Rightarrow> string" where
  "variant_tag ASTNode = []"
| "variant_tag (IntLiteralNode v) = ''IntLiteral''"
| "variant_tag (FloatLiteralNode v) = ''FloatLiteral''"
| "variant_tag (StringLiteralNode v f) = (if f then ''FString'' else ''StringLiteral'')"
| "variant_tag (BoolLiteralNode v) = ''BoolLiteral''"
| "variant_tag NoneLiteralNode = ''None''"
| "variant_tag (IdentifierNode name) = ''Identifier''"
| "variant_tag (BinaryOpNode op l r) = ''BinaryOp''"
| "variant_tag (AssignmentNode t v) = ''Assignment''"
| "variant_tag (FunctionCallNode c args kw) = ''FunctionCall''"
| "variant_tag (ParameterNode name dv ko) = ''Parameter''"
| "variant_tag (FunctionDefNode name ps body) = ''FunctionDef''"
| "variant_tag (ClassDefNode name bases body) = ''ClassDef''"
| "variant_tag (ReturnNode v) = ''Return''"
| "variant_tag (ImportNode m a) = ''Import''"
| "variant_tag (FromImportNode m imps) = ''FromImport''"
| "variant_tag (IfNode c t e) = ''If''"
| "variant_tag (WhileNode c body) = ''While''"
| "variant_tag (ForNode t it body) = ''For''"
| "variant_tag (AttributeNode v attr) = ''Attribute''"
| "variant_tag (ListNode es) = ''List''"
| "variant_tag (DictNode items) = ''Dict''"
| "variant_tag (SubscriptNode v i) = ''Subscript''"
| "variant_tag PassNode = ''Pass''"
| "variant_tag BreakNode = ''Break''"
| "variant_tag ContinueNode = ''Continue''"

fun sub_headers :: "node \<Rightarrow> string list" where
  "sub_headers (AssignmentNode t v) = [''Target:'', ''Value:'']"
| "sub_headers (FunctionCallNode c args kw) =
     [''Callable:''] @ (if args \<noteq> [] then [''Arguments:''] else [])
     @ (if kw \<noteq> [] then [''Keyword Arguments:''] else [])"
| "sub_headers (ParameterNode name dv ko) =
     (case dv of Some x \<Rightarrow> [''Default Value:''] | None \<Rightarrow> [])"
| "sub_headers (FunctionDefNode name ps body) = [''Parameters:'', ''Body:'']"
| "sub_headers (ClassDefNode name bases body) =
     (if bases \<noteq> [] then [''Bases:''] else []) @ [''Body:'']"
| "sub_headers (FromImportNode m imps) = [''Names:'']"
| "sub_headers (IfNode c t e) =
     [''Condition:'', ''Then:''] @ (if e \<noteq> [] then [''Else:''] else [])"
| "sub_headers (WhileNode c body) = [''Condition:'', ''Body:'']"
| "sub_headers (ForNode t it body) = [''Target:'', ''Iterable:'', ''Body:'']"
| "sub_headers (AttributeNode v attr) = [''Value:'']"
| "sub_headers (ListNode es) = (if es \<noteq> [] then [''Elements:''] else [])"
| "sub_headers (DictNode items) = (if items \<noteq> [] then [''Items:''] else [])"
| "sub_headers (SubscriptNode v i) = [''Value:'', ''Index:'']"
| "sub_headers _ = []"

fun nested_lines :: "node \<Rightarrow> string list" where
  "nested_lines (FunctionCallNode c args kw) = map (\<lambda>kv. fst kv @ '':'') kw"
| "nested_lines (FromImportNode m imps) =
     map (\<lambda>na. fst na @ (if truthy_str (snd na) then '' as '' @ the (snd na) else [])) imps"
| "nested_lines (DictNode items) = concat (map (\<lambda>kv. [''Key:'', ''Value:'']) items)"
| "nested_lines _ = []"

fun children_at :: "node \<Rightarrow> (nat \<times> node) list" where
  "children_at (BinaryOpNode op l r) = [(2, l), (2, r)]"
| "children_at (AssignmentNode t v) = [(4, t), (4, v)]"
| "children_at (FunctionCallNode c args kw) =
     (4, c) # map (Pair 4) args @ map (\<lambda>kv. (6, snd kv)) kw"
| "children_at (ParameterNode name dv ko) = (case dv of Some x \<Rightarrow> [(4, x)] | None \<Rightarrow> [])"
| "children_at (FunctionDefNode name ps body) = map (Pair 4) ps @ map (Pair 4) body"
| "children_at (ClassDefNode name bases body) = map (Pair 4) bases @ map (Pair 4) body"
| "children_at (ReturnNode v) = (case v of Some x \<Rightarrow> [(2, x)] | None \<Rightarrow> [])"
| "children_at (IfNode c t e) = (4, c) # map (Pair 4) t @ map (Pair 4) e"
| "children_at (WhileNode c body) = (4, c) # map (Pair 4) body"
| "children_at (ForNode t it body) = (4, t) # (4, it) # map (Pair 4) body"
| "children_at (AttributeNode v attr) = [(4, v)]"
| "children_at (ListNode es) = map (Pair 4) es"
| "children_at (DictNode items) = concat (map (\<lambda>kv. [(6, fst kv), (6, snd kv)]) items)"
| "children_at (SubscriptNode v i) = [(4, v), (4, i)]"
| "children_at _ = []"

section \<open>Classes and kinds of failure\<close>

text \<open>The classes of \<^verbatim>\<open>ast_nodes.py\<close>, the base class first, and the class of a node.\<close>

datatype node_class =
    ASTNode_cls | IntLiteralNode_cls | FloatLiteralNode_cls | StringLiteralNode_cls
  | BoolLiteralNode_cls | NoneLiteralNode_cls | IdentifierNode_cls | BinaryOpNode_cls
  | AssignmentNode_cls | FunctionCallNode_cls | ParameterNode_cls | FunctionDefNode_cls
  | ClassDefNode_cls | ReturnNode_cls | ImportNode_cls | FromImportNode_cls | IfNode_cls
  | WhileNode_cls | ForNode_cls | AttributeNode_cls | ListNode_cls | DictNode_cls
  | SubscriptNode_cls | PassNode_cls | BreakNode_cls | ContinueNode_cls

fun class_of :: "node \<Rightarrow> node_class" where
  "class_of ASTNode = ASTNode_cls"
| "class_of (IntLiteralNode v) = IntLiteralNode_cls"
| "class_of (FloatLiteralNode v) = FloatLiteralNode_cls"
| "class_of (StringLiteralNode v f) = StringLiteralNode_cls"
| "class_of (BoolLiteralNode v) = BoolLiteralNode_cls"
| "class_of NoneLiteralNode = NoneLiteralNode_cls"
| "class_of (IdentifierNode name) = IdentifierNode_cls"
| "class_of (BinaryOpNode op l r) = BinaryOpNode_cls"
| "class_of (AssignmentNode t v) = AssignmentNode_cls"
| "class_of (FunctionCallNode c args kw) = FunctionCallNode_cls"
| "class_of (ParameterNode name dv ko) = ParameterNode_cls"
| "class_of (FunctionDefNode name ps body) = FunctionDefNode_cls"
| "class_of (ClassDefNode name bases body) = ClassDefNode_cls"
| "class_of (ReturnNode v) = ReturnNode_cls"
| "class_of (ImportNode m a) = ImportNode_cls"
| "class_of (FromImportNode m imps) = FromImportNode_cls"
| "class_of (IfNode c t e) = IfNode_cls"
| "class_of (WhileNode c body) = WhileNode_cls"
| "class_of (ForNode t it body) = ForNode_cls"
| "class_of (AttributeNode v attr) = AttributeNode_cls"
| "class_of (ListNode es) = ListNode_cls"
| "class_of (DictNode items) = DictNode_cls"
| "class_of (SubscriptNode v i) = SubscriptNode_cls"
| "class_of PassNode = PassNode_cls"
| "class_of BreakNode = BreakNode_cls"
| "class_of ContinueNode = ContinueNode_cls"

text \<open>The four kinds of failure that the specification's error taxonomy names.\<close>

datatype taxonomy = FileAccessError | LexicalError | SyntaxErrorKind | InternalError

section \<open>Statements that print uniformly\<close>

lemma emits_print_line: "emits (print_line s) (Inr ()) [s]"
  by (simp add: emits_def print_line_def)

lemma emits_skip: "emits skip (Inr ()) []"
  by (simp add: emits_def skip_def)

lemma emits_raise: "emits (raise e) (Inl e) []"
  by (simp add: emits_def raise_def)

lemma emits_return: "emits (return x) (Inr x) []"
  by (simp add: emits_def return_def)

lemma emits_seq: "emits a (Inr u) la \<Longrightarrow> emits b r lb \<Longrightarrow> emits (seq a b) r (la @ lb)"
  by (simp add: emits_def seq_def)

lemma emits_seq_raise: "emits a (Inl e) la \<Longrightarrow> emits (seq a b) (Inl e) la"
  by (simp add: emits_def seq_def)

lemma emits_for_each:
  "(\<And>x. x \<in> set xs \<Longrightarrow> emits (f x) (Inr ()) (g x)) \<Longrightarrow>
   emits (for_each f xs) (Inr ()) (concat (map g xs))"
proof (induction xs)
  case Nil
  show ?case by (simp add: emits_skip)
next
  case (Cons x xs)
  have "emits (f x) (Inr ()) (g x)" using Cons.prems by simp
  moreover have "emits (for_each f xs) (Inr ()) (concat (map g xs))"
    using Cons by simp
  ultimately show ?case by (simp add: emits_seq)
qed

lemma emits_printed: "emits a r ls \<Longrightarrow> printed a st = ls"
  by (simp add: emits_def printed_def)

lemma emits_outcome: "emits a r ls \<Longrightarrow> outcome a st = r"
  by (simp add: emits_def outcome_def)

lemma emits_unique: "emits a r ls \<Longrightarrow> emits a r' ls' \<Longrightarrow> r = r' \<and> ls = ls'"
  using emits_printed emits_outcome by metis

lemma uniformI: "emits a r ls \<Longrightarrow> uniform a"
  by (auto simp: uniform_def)

lemma uniform_seq: "uniform a \<Longrightarrow> uniform b \<Longrightarrow> uniform (seq a b)"
  unfolding uniform_def
  apply (elim exE)
  subgoal for r ls r' ls'
    apply (cases r)
     apply (blast intro: emits_seq_raise)
    apply (blast intro: emits_seq)
    done
  done

lemma uniform_for_each: "(\<And>x. x \<in> set xs \<Longrightarrow> uniform (f x)) \<Longrightarrow> uniform (for_each f xs)"
  by (induction xs) (auto intro: uniform_seq uniformI emits_skip)

lemma uniform_print_line: "uniform (print_line s)"
  by (blast intro: uniformI emits_print_line)
lemma uniform_skip: "uniform skip"
  by (blast intro: uniformI emits_skip)
lemma uniform_raise: "uniform (raise e)"
  by (blast intro: uniformI emits_raise)

lemmas uniform_intros = uniform_seq uniform_for_each uniform_print_line uniform_skip uniform_raise

lemma uniform_print_node: "uniform (print_node n d)"
proof (induction n d rule: print_node.induct)
  case (10 callable arguments keyword_args indent)
  then show ?case
    by (auto intro!: uniform_intros)
next
  case (11 name default_value is_keyword_only indent)
  then show ?case by (auto intro!: uniform_intros split: option.splits simp: Let_def)
next
  case (14 v indent)
  then show ?case by (auto intro!: uniform_intros split: option.splits)
qed (auto intro!: uniform_intros simp: Let_def)


lemma ok_uniform: "ok a \<Longrightarrow> uniform a"
  by (auto simp: ok_def uniform_def)

lemma ok_print_line [simp]: "ok (print_line s)"
  by (auto simp: ok_def intro: emits_print_line)

lemma ok_skip [simp]: "ok skip"
  by (auto simp: ok_def intro: emits_skip)

lemma ok_seq [simp]: "ok a \<Longrightarrow> ok b \<Longrightarrow> ok (seq a b)"
  by (auto simp: ok_def intro: emits_seq)

lemma ok_for_each [simp]: "\<forall>x \<in> set xs. ok (f x) \<Longrightarrow> ok (for_each f xs)"
  by (induction xs) auto

lemma ok_emits: "ok a \<Longrightarrow> emits a (Inr ()) (printed a st)"
  unfolding ok_def using emits_printed by metis

lemma ok_outcome: "ok a \<Longrightarrow> outcome a st = Inr ()"
  unfolding ok_def using emits_outcome by metis

lemma printed_print_line [simp]: "printed (print_line s) st = [s]"
  by (rule emits_printed [OF emits_print_line])

lemma printed_skip [simp]: "printed skip st = []"
  by (rule emits_printed [OF emits_skip])

lemma printed_seq [simp]:
  assumes "ok a" and "ok b"
  shows "printed (seq a b) st = printed a st @ printed b st"
  by (rule emits_printed [OF emits_seq [OF ok_emits [OF assms(1)] ok_emits [OF assms(2)]]])

lemma printed_for_each [simp]:
  assumes "\<forall>x \<in> set xs. ok (f x)"
  shows "printed (for_each f xs) st = concat (map (\<lambda>x. printed (f x) st) xs)"
  using assms by (induction xs) auto

lemma ok_print_node [simp]: "concrete n \<Longrightarrow> ok (print_node n d)"
proof (induction n d rule: print_node.induct)
  case (10 callable arguments keyword_args indent)
  then show ?case by (auto intro!: ok_seq ok_for_each)
next
  case (11 name default_value is_keyword_only indent)
  then show ?case by (auto split: option.splits simp: Let_def)
next
  case (14 v indent)
  then show ?case by (auto split: option.splits)
next
  case (16 module imps indent)
  then show ?case by (auto simp: Let_def case_prod_beta)
next
  case (22 items indent)
  then show ?case by (auto intro!: ok_seq ok_for_each)
qed (auto simp: Let_def)


section \<open>The rendering of each class\<close>

lemmas layout_simps = case_prod_beta Let_def

lemma layout_IntLiteral:
  "render (IntLiteralNode v) d st = [spaces d @ ''IntLiteral('' @ str_int v @ '')'']"
  by simp

lemma layout_FloatLiteral:
  "render (FloatLiteralNode v) d st = [spaces d @ ''FloatLiteral('' @ str_float v @ '')'']"
  by simp

lemma layout_StringLiteral:
  "render (StringLiteralNode v f) d st =
     [spaces d @ (if f then ''FString'' else ''StringLiteral'') @ ''(\"'' @ v @ ''\")'']"
  by simp

lemma layout_BoolLiteral:
  "render (BoolLiteralNode v) d st = [spaces d @ ''BoolLiteral('' @ str_bool v @ '')'']"
  by simp

lemma layout_NoneLiteral: "render NoneLiteralNode d st = [spaces d @ ''None'']"
  by simp

lemma layout_Identifier:
  "render (IdentifierNode name) d st = [spaces d @ ''Identifier('' @ name @ '')'']"
  by simp

lemma layout_BinaryOp:
  "concrete (BinaryOpNode op left right) \<Longrightarrow>
   render (BinaryOpNode op left right) d st =
     (spaces d @ ''BinaryOp('' @ op @ '')'') # render left (d + 2) st @ render right (d + 2) st"
  by (simp del: add_2_eq_Suc')

lemma layout_Assignment:
  "concrete (AssignmentNode target v) \<Longrightarrow>
   render (AssignmentNode target v) d st =
     (spaces d @ ''Assignment'')
     # (spaces (d + 2) @ ''Target:'') # render target (d + 4) st
     @ (spaces (d + 2) @ ''Value:'') # render v (d + 4) st"
  by (simp del: add_2_eq_Suc')

lemma layout_FunctionCall:
  "concrete (FunctionCallNode callable arguments keyword_args) \<Longrightarrow>
   render (FunctionCallNode callable arguments keyword_args) d st =
     (spaces d @ ''FunctionCall'')
     # (spaces (d + 2) @ ''Callable:'') # render callable (d + 4) st
     @ (if arguments \<noteq> [] then
          (spaces (d + 2) @ ''Arguments:'') # concat (map (\<lambda>arg. render arg (d + 4) st) arguments)
        else [])
     @ (if keyword_args \<noteq> [] then
          (spaces (d + 2) @ ''Keyword Arguments:'')
          # concat (map (\<lambda>kv. (spaces (d + 4) @ fst kv @ '':'') # render (snd kv) (d + 6) st)
                        keyword_args)
        else [])"
  by (simp del: add_2_eq_Suc' add: layout_simps cong: map_cong)

lemma layout_Parameter:
  "concrete (ParameterNode name default_value is_keyword_only) \<Longrightarrow>
   render (ParameterNode name default_value is_keyword_only) d st =
     (spaces d @ ''Parameter('' @ name @ (if is_keyword_only then '', keyword-only'' else [])
        @ '')'')
     # (case default_value of
          Some dv \<Rightarrow> (spaces (d + 2) @ ''Default Value:'') # render dv (d + 4) st
        | None \<Rightarrow> [])"
  by (cases default_value) (simp_all del: add_2_eq_Suc' add: layout_simps)

lemma layout_FunctionDef:
  "concrete (FunctionDefNode name parameters body) \<Longrightarrow>
   render (FunctionDefNode name parameters body) d st =
     (spaces d @ ''FunctionDef('' @ name @ '')'')
     # (spaces (d + 2) @ ''Parameters:'') # concat (map (\<lambda>p. render p (d + 4) st) parameters)
     @ (spaces (d + 2) @ ''Body:'') # concat (map (\<lambda>s. render s (d + 4) st) body)"
  by (simp del: add_2_eq_Suc' add: layout_simps cong: map_cong)

lemma layout_ClassDef:
  "concrete (ClassDefNode name bases body) \<Longrightarrow>
   render (ClassDefNode name bases body) d st =
     (spaces d @ ''ClassDef('' @ name @ '')'')
     # (if bases \<noteq> [] then
          (spaces (d + 2) @ ''Bases:'') # concat (map (\<lambda>b. render b (d + 4) st) bases)
        else [])
     @ (spaces (d + 2) @ ''Body:'') # concat (map (\<lambda>s. render s (d + 4) st) body)"
  by (simp del: add_2_eq_Suc' add: layout_simps cong: map_cong)

lemma layout_Return:
  "concrete (ReturnNode v) \<Longrightarrow>
   render (ReturnNode v) d st =
     (spaces d @ ''Return'') # (case v of Some x \<Rightarrow> render x (d + 2) st | None \<Rightarrow> [])"
  by (cases v) (simp_all del: add_2_eq_Suc' add: layout_simps)

lemma layout_Import:
  "render (ImportNode module alias) d st =
     [spaces d @ ''Import('' @ module
        @ (if truthy_str alias then '' as '' @ the alias else []) @ '')'']"
  by (simp add: layout_simps)

lemma layout_FromImport:
  "render (FromImportNode module imps) d st =
     (spaces d @ ''FromImport('' @ module @ '')'')
     # (spaces (d + 2) @ ''Names:'')
     # map (\<lambda>na. spaces (d + 4) @ fst na
                  @ (if truthy_str (snd na) then '' as '' @ the (snd na) else [])) imps"
  by (simp del: add_2_eq_Suc' add: layout_simps cong: map_cong)

lemma layout_If:
  "concrete (IfNode condition then_body else_body) \<Longrightarrow>
   render (IfNode condition then_body else_body) d st =
     (spaces d @ ''If'')
     # (spaces (d + 2) @ ''Condition:'') # render condition (d + 4) st
     @ (spaces (d + 2) @ ''Then:'') # concat (map (\<lambda>s. render s (d + 4) st) then_body)
     @ (if else_body \<noteq> [] then
          (spaces (d + 2) @ ''Else:'') # concat (map (\<lambda>s. render s (d + 4) st) else_body)
        else [])"
  by (simp del: add_2_eq_Suc' add: layout_simps cong: map_cong)

lemma layout_While:
  "concrete (WhileNode condition body) \<Longrightarrow>
   render (WhileNode condition body) d st =
     (spaces d @ ''While'')
     # (spaces (d + 2) @ ''Condition:'') # render condition (d + 4) st
     @ (spaces (d + 2) @ ''Body:'') # concat (map (\<lambda>s. render s (d + 4) st) body)"
  by (simp del: add_2_eq_Suc' add: layout_simps cong: map_cong)

lemma layout_For:
  "concrete (ForNode target iterable body) \<Longrightarrow>
   render (ForNode target iterable body) d st =
     (spaces d @ ''For'')
     # (spaces (d + 2) @ ''Target:'') # render target (d + 4) st
     @ (spaces (d + 2) @ ''Iterable:'') # render iterable (d + 4) st
     @ (spaces (d + 2) @ ''Body:'') # concat (map (\<lambda>s. render s (d + 4) st) body)"
  by (simp del: add_2_eq_Suc' add: layout_simps cong: map_cong)

lemma layout_Attribute:
  "concrete (AttributeNode v attr) \<Longrightarrow>
   render (AttributeNode v attr) d st =
     (spaces d @ ''Attribute('' @ attr @ '')'')
     # (spaces (d + 2) @ ''Value:'') # render v (d + 4) st"
  by (simp del: add_2_eq_Suc' add: layout_simps cong: map_cong)

lemma layout_List:
  "concrete (ListNode elements) \<Longrightarrow>
   render (ListNode elements) d st =
     (spaces d @ ''List'')
     # (if elements \<noteq> [] then
          (spaces (d + 2) @ ''Elements:'') # concat (map (\<lambda>e. render e (d + 4) st) elements)
        else [])"
  by (simp del: add_2_eq_Suc' add: layout_simps cong: map_cong)

lemma layout_Dict:
  "concrete (DictNode items) \<Longrightarrow>
   render (DictNode items) d st =
     (spaces d @ ''Dict'')
     # (if items \<noteq> [] then
          (spaces (d + 2) @ ''Items:'')
          # concat (map (\<lambda>kv. (spaces (d + 4) @ ''Key:'') # render (fst kv) (d + 6) st
                              @ (spaces (d + 4) @ ''Value:'') # render (snd kv) (d + 6) st) items)
        else [])"
  by (simp del: add_2_eq_Suc' add: layout_simps cong: map_cong)

lemma layout_Subscript:
  "concrete (SubscriptNode v index) \<Longrightarrow>
   render (SubscriptNode v index) d st =
     (spaces d @ ''Subscript'')
     # (spaces (d + 2) @ ''Value:'') # render v (d + 4) st
     @ (spaces (d + 2) @ ''Index:'') # render index (d + 4) st"
  by (simp del: add_2_eq_Suc' add: layout_simps cong: map_cong)

lemma layout_Pass: "render PassNode d st = [spaces d @ ''Pass'']"
  by simp

lemma layout_Break: "render BreakNode d st = [spaces d @ ''Break'']"
  by simp

lemma layout_Continue: "render ContinueNode d st = [spaces d @ ''Continue'']"
  by simp


lemmas layouts =
  layout_IntLiteral layout_FloatLiteral layout_StringLiteral layout_BoolLiteral
  layout_NoneLiteral layout_Identifier layout_BinaryOp layout_Assignment layout_FunctionCall
  layout_Parameter layout_FunctionDef layout_ClassDef layout_Return layout_Import
  layout_FromImport layout_If layout_While layout_For layout_Attribute layout_List
  layout_Dict layout_Subscript layout_Pass layout_Break layout_Continue

declare print_node.simps [simp del]

section \<open>Facts about sublists and sums\<close>

lemma tag_line_first:
  assumes "concrete n"
  shows "\<exists>payload rest. render n d st = (spaces d @ variant_tag n @ payload) # rest
           \<and> (payload = [] \<or> (hd payload = CHR ''('' \<and> last payload = CHR '')''))"
  using assms by (cases n) (simp_all add: layouts)

lemma variant_tag_shape:
  "n \<noteq> ASTNode \<Longrightarrow> variant_tag n \<noteq> [] \<and> CHR '' '' \<notin> set (variant_tag n)"
  by (cases n) simp_all

lemma sublist_self: "sublist xs xs"
  unfolding sublist_def by (rule exI [of _ "[]"], rule exI [of _ "[]"]) simp

lemma sublist_in_right: "sublist xs ys \<Longrightarrow> sublist xs (ps @ ys)"
  unfolding sublist_def by (metis append.assoc)

lemma sublist_in_left: "sublist xs ys \<Longrightarrow> sublist xs (ys @ ss)"
  unfolding sublist_def by (metis append.assoc)

lemma sublist_in_tail: "sublist xs ys \<Longrightarrow> sublist xs (y # ys)"
  by (simp add: sublist_Cons_right)

lemma sublist_concat_map: "x \<in> set xs \<Longrightarrow> sublist zs (f x) \<Longrightarrow> sublist zs (concat (map f xs))"
proof (induction xs)
  case Nil
  then show ?case by simp
next
  case (Cons y ys)
  show ?case
  proof (cases "x = y")
    case True
    then show ?thesis using Cons.prems by (simp add: sublist_in_left)
  next
    case False
    then have "sublist zs (concat (map f ys))" using Cons by simp
    then show ?thesis by (simp add: sublist_in_right)
  qed
qed

lemma sublist_in_append: "sublist xs ys \<or> sublist xs zs \<Longrightarrow> sublist xs (ys @ zs)"
  using sublist_in_left sublist_in_right by blast

lemma child_in_group:
  "c \<in> set xs \<Longrightarrow> sublist (render c k st) (concat (map (\<lambda>x. render x k st) xs))"
  by (rule sublist_concat_map [where f = "\<lambda>x. render x k st"], assumption)
     (simp add: sublist_self)

lemma child_in_labelled_group:
  "kv \<in> set xs \<Longrightarrow>
   sublist (render (snd kv) k st) (concat (map (\<lambda>x. l x # render (snd x) k st) xs))"
  by (rule sublist_concat_map [where f = "\<lambda>x. l x # render (snd x) k st"], assumption)
     (simp add: sublist_self sublist_in_tail)

lemma child_in_items:
  "kv \<in> set xs \<Longrightarrow>
   sublist (render (fst kv) k st)
     (concat (map (\<lambda>x. a # render (fst x) k st @ b # render (snd x) k st) xs))"
  "kv \<in> set xs \<Longrightarrow>
   sublist (render (snd kv) k st)
     (concat (map (\<lambda>x. a # render (fst x) k st @ b # render (snd x) k st) xs))"
  by (rule sublist_concat_map [where f = "\<lambda>x. a # render (fst x) k st @ b # render (snd x) k st"],
      assumption, simp add: sublist_self sublist_in_tail sublist_in_append)+

lemmas sublist_rules =
  sublist_self sublist_in_tail sublist_in_append child_in_group child_in_labelled_group
  child_in_items

lemma headers_printed:
  assumes "concrete n" and "h \<in> set (sub_headers n)"
  shows "spaces (d + 2) @ h \<in> set (tl (render n d st))"
  using assms by (cases n) (auto simp: layouts simp del: add_2_eq_Suc' split: option.splits if_splits)

lemma nested_lines_printed:
  assumes "concrete n" and "l \<in> set (nested_lines n)"
  shows "spaces (d + 4) @ l \<in> set (tl (render n d st))"
  using assms by (cases n) (auto simp: layouts simp del: add_2_eq_Suc' split: option.splits if_splits)

lemma children_rendered:
  assumes "concrete n"
  shows "\<forall>(k, c) \<in> set (children_at n).
           k \<in> {2, 4, 6} \<and> sublist (render c (d + k) st) (tl (render n d st))"
  using assms
  by (cases n)
     (simp_all add: layouts sublist_rules ball_Un case_prod_beta del: add_2_eq_Suc'
        split: option.splits)

lemma sum_list_concat_map:
  "sum_list (map f (concat (map g xs))) = sum_list (map (\<lambda>x. sum_list (map f (g x))) xs)"
  by (induction xs) simp_all

lemma sum_list_Suc: "(\<Sum>x\<leftarrow>xs. Suc (f x)) = length xs + (\<Sum>x\<leftarrow>xs. f x)"
  by (induction xs) simp_all

lemma render_length:
  assumes "concrete n"
  shows "length (render n d st) =
           1 + length (sub_headers n) + length (nested_lines n)
           + (\<Sum>(k, c) \<leftarrow> children_at n. length (render c (d + k) st))"
  using assms
  by (cases n)
     (simp_all add: layouts case_prod_beta length_concat comp_def sum_list_concat_map
        sum_list_addf sum_list_Suc
        del: add_2_eq_Suc' split: option.splits)

section \<open>Every line of a rendering is indented\<close>

lemma spaces_add: "spaces (a + b) = spaces a @ spaces b"
  by (simp add: spaces_def replicate_add)

lemma spaces_2: "spaces 2 = ''  ''"
  by (simp add: spaces_def numeral_2_eq_2)

lemma spaces_4: "spaces 4 = ''    ''"
  by (simp add: spaces_def eval_nat_numeral)

lemma spaces_6: "spaces 6 = ''      ''"
  by (simp add: spaces_def eval_nat_numeral)

lemma indented_Nil: "indented d []"
  by (simp add: indented_def)

lemma indented_Cons: "indented d (l # ls) = (prefix (spaces d) l \<and> indented d ls)"
  by (simp add: indented_def)

lemma indented_append: "indented d (xs @ ys) = (indented d xs \<and> indented d ys)"
  by (auto simp: indented_def)

lemma indented_concat_map: "indented d (concat (map f xs)) = (\<forall>x \<in> set xs. indented d (f x))"
  by (auto simp: indented_def)

lemma indented_map: "indented d (map f xs) = (\<forall>x \<in> set xs. prefix (spaces d) (f x))"
  by (auto simp: indented_def)

lemma prefix_spaces_line: "prefix (spaces d) (spaces (d + k) @ x)"
  by (simp add: spaces_add prefix_def)

lemma prefix_spaces_line0: "prefix (spaces d) (spaces d @ x)"
  by (simp add: prefix_def)

lemma indented_weaken: "indented (d + k) ls \<Longrightarrow> indented d ls"
  by (auto simp: indented_def spaces_add prefix_def)

lemma indented_render_weaken:
  "indented (d + k) (render x (d + k) st) \<Longrightarrow> indented d (render x (d + k) st)"
  by (rule indented_weaken)

lemmas indented_simps =
  indented_Nil indented_Cons indented_append indented_concat_map indented_map
  prefix_spaces_line prefix_spaces_line0 indented_render_weaken

lemma render_indented: "concrete n \<Longrightarrow> indented d (render n d st)"
proof (induction n d rule: print_node.induct)
  case (10 callable arguments keyword_args indent)
  have "indented indent (render (snd kv) (indent + 6) st)" if "kv \<in> set keyword_args" for kv
  proof -
    have "keyword_args \<noteq> []" using that by auto
    moreover have "concrete (snd kv)" using that "10.prems" by (auto simp: case_prod_beta)
    ultimately have "indented (indent + 6) (render (snd kv) (indent + 6) st)"
      using "10.IH"(3) [of kv "fst kv" "snd kv"] that by simp
    then show ?thesis by (rule indented_weaken)
  qed
  with "10.prems" "10.IH"(1,2) show ?case
    by (simp add: layouts indented_simps case_prod_beta del: add_2_eq_Suc')
next
  case (11 name default_value is_keyword_only indent)
  then show ?case
    by (cases default_value) (simp_all add: layouts indented_simps del: add_2_eq_Suc')
next
  case (14 v indent)
  then show ?case
    by (cases v) (simp_all add: layouts indented_simps del: add_2_eq_Suc')
next
  case (22 items indent)
  have "indented indent (render (fst kv) (indent + 6) st)
        \<and> indented indent (render (snd kv) (indent + 6) st)" if "kv \<in> set items" for kv
  proof -
    have ne: "items \<noteq> []" using that by auto
    have "concrete (fst kv)" and "concrete (snd kv)"
      using that "22.prems" by (auto simp: case_prod_beta)
    then have "indented (indent + 6) (render (fst kv) (indent + 6) st)"
      and "indented (indent + 6) (render (snd kv) (indent + 6) st)"
      using "22.IH"(1) [of kv "fst kv" "snd kv"] "22.IH"(2) [of kv "fst kv" "snd kv"] that ne
      by simp_all
    then show ?thesis by (blast intro: indented_weaken)
  qed
  with "22.prems" show ?case
    by (simp add: layouts indented_simps case_prod_beta del: add_2_eq_Suc')
qed (simp_all add: layouts indented_simps del: add_2_eq_Suc')

lemma render_min_indent:
  "concrete n \<Longrightarrow> l \<in> set (render n d st) \<Longrightarrow> prefix (spaces d) l"
  using render_indented [of n d st] by (simp add: indented_def)


lemma header_in_child:
  assumes "spaces d @ h \<in> set (render c (d + k) st)" and "concrete c"
  shows "prefix (spaces k) h"
proof -
  have "prefix (spaces (d + k)) (spaces d @ h)"
    using render_min_indent [OF assms(2,1)] .
  then show ?thesis by (simp add: spaces_add)
qed

lemmas header_simps = spaces_add spaces_2 spaces_4 spaces_6 case_prod_beta

section \<open>Classes, constructors, aliases and handlers\<close>

lemma UNIV_node_class:
  "(UNIV :: node_class set) =
     {ASTNode_cls, IntLiteralNode_cls, FloatLiteralNode_cls, StringLiteralNode_cls,
      BoolLiteralNode_cls, NoneLiteralNode_cls, IdentifierNode_cls, BinaryOpNode_cls,
      AssignmentNode_cls, FunctionCallNode_cls, ParameterNode_cls, FunctionDefNode_cls,
      ClassDefNode_cls, ReturnNode_cls, ImportNode_cls, FromImportNode_cls, IfNode_cls,
      WhileNode_cls, ForNode_cls, AttributeNode_cls, ListNode_cls, DictNode_cls,
      SubscriptNode_cls, PassNode_cls, BreakNode_cls, ContinueNode_cls}"
proof -
  have "c \<in> {ASTNode_cls, IntLiteralNode_cls, FloatLiteralNode_cls, StringLiteralNode_cls,
      BoolLiteralNode_cls, NoneLiteralNode_cls, IdentifierNode_cls, BinaryOpNode_cls,
      AssignmentNode_cls, FunctionCallNode_cls, ParameterNode_cls, FunctionDefNode_cls,
      ClassDefNode_cls, ReturnNode_cls, ImportNode_cls, FromImportNode_cls, IfNode_cls,
      WhileNode_cls, ForNode_cls, AttributeNode_cls, ListNode_cls, DictNode_cls,
      SubscriptNode_cls, PassNode_cls, BreakNode_cls, ContinueNode_cls}" for c
    by (cases c) simp_all
  then show ?thesis by blast
qed

lemma card_node_class: "card (UNIV :: node_class set) = 26"
  by (simp add: UNIV_node_class)

lemma card_concrete_classes: "card (UNIV - {ASTNode_cls}) = 25"
  by (simp add: UNIV_node_class)

lemma class_of_onto: "\<exists>n. class_of n = c"
  by (cases c; hypsubst; rule exI; rule class_of.simps)

lemma class_of_base: "class_of n = ASTNode_cls \<longleftrightarrow> n = ASTNode"
  by (cases n) simp_all

lemma printed_after_line:
  assumes "uniform b"
  shows "printed (seq (print_line s) b) st \<noteq> []"
proof -
  obtain r lb where "emits b r lb" using assms unfolding uniform_def by blast
  then have "emits (seq (print_line s) b) r ([s] @ lb)"
    by (rule emits_seq [OF emits_print_line])
  then show ?thesis by (simp add: emits_printed)
qed

lemma overrides_print:
  assumes "n \<noteq> ASTNode"
  shows "render n d st \<noteq> []"
  using assms
  by (cases n)
     (auto simp: print_node.simps Let_def case_prod_unfold
           intro!: printed_after_line uniform_intros uniform_print_node
           split: option.splits)

lemma py_or_empty: "py_or x [] = (case x of None \<Rightarrow> [] | Some xs \<Rightarrow> xs)"
  by (cases x) (simp_all add: py_or_def)

lemmas init_defs =
  FunctionCallNode_init_def FunctionDefNode_init_def ClassDefNode_init_def
  FromImportNode_init_def IfNode_init_def WhileNode_init_def ForNode_init_def
  ListNode_init_def DictNode_init_def

lemma import_entry_suffix:
  "(x @ (if truthy_str alias then '' as '' @ the alias else []) = x @ '' as '' @ a)
     = (alias = Some a \<and> a \<noteq> [])"
  by (cases "alias") auto

lemma import_entry_plain:
  "(x @ (if truthy_str alias then '' as '' @ the alias else []) = x)
     = (alias = None \<or> alias = Some [])"
  by (cases "alias") auto

lemma import_line_suffix:
  "(x @ (if truthy_str alias then '' as '' @ the alias else []) @ '')'' = x @ '' as '' @ a @ '')'')
     = (alias = Some a \<and> a \<noteq> [])"
  by (cases "alias") auto

lemma import_line_plain:
  "(x @ (if truthy_str alias then '' as '' @ the alias else []) @ '')'' = x @ '')'')
     = (alias = None \<or> alias = Some [])"
  by (cases "alias") auto

lemma UNIV_taxonomy: "(UNIV :: taxonomy set) = {FileAccessError, LexicalError, SyntaxErrorKind, InternalError}"
proof -
  have "t \<in> {FileAccessError, LexicalError, SyntaxErrorKind, InternalError}" for t
    by (cases t) simp_all
  then show ?thesis by blast
qed

lemma card_taxonomy: "card (UNIV :: taxonomy set) = 4"
  by (simp add: UNIV_taxonomy)

lemma except_clauses_caught:
  "exc_class e \<noteq> BaseExceptionOnly \<Longrightarrow>
   except_clauses input_file e st =
     (Inr 1, st\<lparr>stdout := stdout st @
        [if exc_class e = FileNotFoundError then ''Error: Could not open file '' @ input_file
         else if exc_class e = SyntaxError then ''Syntax Error: '' @ exc_str e
         else ''Error: '' @ exc_str e]\<rparr>)"
  by (simp add: except_clauses_def seq_def print_line_def return_def)

lemma except_clauses_uncaught:
  "exc_class e = BaseExceptionOnly \<Longrightarrow> except_clauses input_file e st = (Inl e, st)"
  by (simp add: except_clauses_def raise_def)

lemma try_body_read_file_raises:
  "read_file input_file st = (Inl e, st') \<Longrightarrow>
   try_body read_file tokenize parse input_file st = (Inl e, st')"
  by (simp add: try_body_def bind_def)

section \<open>Indentation of the rendering\<close>

text \<open>
  Claim C1, as the code has it. For every tree of concrete nodes and every depth \<open>d\<close>,
  \<^verbatim>\<open>print_node\<close> first prints the tag line: \<open>d\<close> spaces, the name of the variant
  (which has no space in it), then nothing or a payload in parentheses. Every sub-header
  label follows \<open>d + 2\<close> spaces. The operands of a binary operation and the value of a
  return are rendered at \<open>d + 2\<close>, a child under a sub-header at \<open>d + 4\<close>, and the key and
  value of a dictionary entry and the value of a keyword argument at \<open>d + 6\<close>, under labels
  that follow \<open>d + 4\<close> spaces, as do the names of a from-import. Nothing else is printed:
  the number of printed strings is the tag line, the labels and the children's renderings.
\<close>

theorem print_node_layout:
  assumes "concrete n"
  shows "(\<exists>payload rest. render n d st = (spaces d @ variant_tag n @ payload) # rest
            \<and> (payload = [] \<or> (hd payload = CHR ''('' \<and> last payload = CHR '')'')))
         \<and> variant_tag n \<noteq> [] \<and> CHR '' '' \<notin> set (variant_tag n)
         \<and> (\<forall>h \<in> set (sub_headers n). spaces (d + 2) @ h \<in> set (tl (render n d st)))
         \<and> (\<forall>l \<in> set (nested_lines n). spaces (d + 4) @ l \<in> set (tl (render n d st)))
         \<and> (\<forall>(k, c) \<in> set (children_at n).
               k \<in> {2, 4, 6} \<and> sublist (render c (d + k) st) (tl (render n d st)))
         \<and> length (render n d st) =
             1 + length (sub_headers n) + length (nested_lines n)
             + (\<Sum>(k, c) \<leftarrow> children_at n. length (render c (d + k) st))"
proof -
  have "n \<noteq> ASTNode" using assms by auto
  then have "variant_tag n \<noteq> [] \<and> CHR '' '' \<notin> set (variant_tag n)"
    by (rule variant_tag_shape)
  moreover note tag_line_first [OF assms, of d st]
  moreover have "\<forall>h \<in> set (sub_headers n). spaces (d + 2) @ h \<in> set (tl (render n d st))"
    using headers_printed [OF assms] by blast
  moreover have "\<forall>l \<in> set (nested_lines n). spaces (d + 4) @ l \<in> set (tl (render n d st))"
    using nested_lines_printed [OF assms] by blast
  moreover note children_rendered [OF assms, of d st]
  moreover note render_length [OF assms, of d st]
  ultimately show ?thesis by blast
qed

theorem print_node_layout_witness:
  "concrete (DictNode [(IntLiteralNode 1, StringLiteralNode ''a'' False)])
   \<and> ''Items:'' \<in> set (sub_headers (DictNode [(IntLiteralNode 1, StringLiteralNode ''a'' False)]))
   \<and> spaces (0 + 2) @ ''Items:''
       \<in> set (tl (render (DictNode [(IntLiteralNode 1, StringLiteralNode ''a'' False)]) 0
                     initial_state))
   \<and> ''Key:'' \<in> set (nested_lines (DictNode [(IntLiteralNode 1, StringLiteralNode ''a'' False)]))
   \<and> spaces (0 + 4) @ ''Key:''
       \<in> set (tl (render (DictNode [(IntLiteralNode 1, StringLiteralNode ''a'' False)]) 0
                     initial_state))
   \<and> (6, IntLiteralNode 1)
       \<in> set (children_at (DictNode [(IntLiteralNode 1, StringLiteralNode ''a'' False)]))
   \<and> sublist (render (IntLiteralNode 1) (0 + 6) initial_state)
        (tl (render (DictNode [(IntLiteralNode 1, StringLiteralNode ''a'' False)]) 0
               initial_state))
   \<and> render (DictNode [(IntLiteralNode 1, StringLiteralNode ''a'' False)]) 0 initial_state =
       [''Dict'', ''  Items:'', ''    Key:'', ''      IntLiteral(1)'', ''    Value:'',
        ''      StringLiteral(\"a\")'']"
proof -
  let ?n = "DictNode [(IntLiteralNode 1, StringLiteralNode ''a'' False)]"
  have c: "concrete ?n" by simp
  have h: "''Items:'' \<in> set (sub_headers ?n)" by simp
  have l: "''Key:'' \<in> set (nested_lines ?n)" by simp
  have k: "(6, IntLiteralNode 1) \<in> set (children_at ?n)" by simp
  note t = print_node_layout [OF c, of 0 initial_state]
  have "spaces (0 + 2) @ ''Items:'' \<in> set (tl (render ?n 0 initial_state))"
    using t h by blast
  moreover have "spaces (0 + 4) @ ''Key:'' \<in> set (tl (render ?n 0 initial_state))"
    using t l by blast
  moreover have "sublist (render (IntLiteralNode 1) (0 + 6) initial_state)
          (tl (render ?n 0 initial_state))"
    using t k by blast
  moreover have "render ?n 0 initial_state =
       [''Dict'', ''  Items:'', ''    Key:'', ''      IntLiteral(1)'', ''    Value:'',
        ''      StringLiteral(\"a\")'']"
    by code_simp
  ultimately show ?thesis using c h l k by blast
qed

text \<open>
  Claim C1 as stated fails for a dictionary entry: its key and value are rendered neither
  at \<open>d + 2\<close> nor at \<open>d + 4\<close> but at \<open>d + 6\<close>, and the labels \<^verbatim>\<open>Key:\<close> and \<^verbatim>\<open>Value:\<close>
  follow four spaces, not two.
\<close>

theorem dict_entry_depth_counterexample:
  "render (DictNode [(NoneLiteralNode, NoneLiteralNode)]) 0 initial_state =
     [''Dict'', ''  Items:'', ''    Key:'', ''      None'', ''    Value:'', ''      None'']
   \<and> \<not> sublist (render NoneLiteralNode (0 + 2) initial_state)
          (render (DictNode [(NoneLiteralNode, NoneLiteralNode)]) 0 initial_state)
   \<and> \<not> sublist (render NoneLiteralNode (0 + 4) initial_state)
          (render (DictNode [(NoneLiteralNode, NoneLiteralNode)]) 0 initial_state)
   \<and> sublist (render NoneLiteralNode (0 + 6) initial_state)
        (render (DictNode [(NoneLiteralNode, NoneLiteralNode)]) 0 initial_state)"
  by code_simp

section \<open>Sub-headers of empty groups\<close>

text \<open>
  Claim C2, as the code has it. In the rendering of a tree of concrete nodes, the
  sub-headers \<^verbatim>\<open>Arguments:\<close> and \<^verbatim>\<open>Keyword Arguments:\<close> of a function call, \<^verbatim>\<open>Bases:\<close>
  of a class definition, \<^verbatim>\<open>Elements:\<close> of a list, \<^verbatim>\<open>Items:\<close> of a dictionary and
  \<^verbatim>\<open>Else:\<close> of an if are printed exactly when their list (or mapping) is not empty.
  The sub-headers \<^verbatim>\<open>Parameters:\<close>, \<^verbatim>\<open>Body:\<close>, \<^verbatim>\<open>Then:\<close> and \<^verbatim>\<open>Names:\<close> are printed
  also when their list is empty.
\<close>

theorem guarded_sub_headers:
  assumes "concrete n"
  shows "case n of
      FunctionCallNode callable arguments keyword_args \<Rightarrow>
        (spaces (d + 2) @ ''Arguments:'' \<in> set (render n d st) \<longleftrightarrow> arguments \<noteq> [])
        \<and> (spaces (d + 2) @ ''Keyword Arguments:'' \<in> set (render n d st) \<longleftrightarrow> keyword_args \<noteq> [])
    | ClassDefNode name bases body \<Rightarrow>
        (spaces (d + 2) @ ''Bases:'' \<in> set (render n d st) \<longleftrightarrow> bases \<noteq> [])
        \<and> spaces (d + 2) @ ''Body:'' \<in> set (render n d st)
    | ListNode elements \<Rightarrow>
        (spaces (d + 2) @ ''Elements:'' \<in> set (render n d st) \<longleftrightarrow> elements \<noteq> [])
    | DictNode items \<Rightarrow>
        (spaces (d + 2) @ ''Items:'' \<in> set (render n d st) \<longleftrightarrow> items \<noteq> [])
    | IfNode condition then_body else_body \<Rightarrow>
        (spaces (d + 2) @ ''Else:'' \<in> set (render n d st) \<longleftrightarrow> else_body \<noteq> [])
        \<and> spaces (d + 2) @ ''Then:'' \<in> set (render n d st)
    | FunctionDefNode name parameters body \<Rightarrow>
        spaces (d + 2) @ ''Parameters:'' \<in> set (render n d st)
        \<and> spaces (d + 2) @ ''Body:'' \<in> set (render n d st)
    | WhileNode condition body \<Rightarrow> spaces (d + 2) @ ''Body:'' \<in> set (render n d st)
    | ForNode target iterable body \<Rightarrow> spaces (d + 2) @ ''Body:'' \<in> set (render n d st)
    | FromImportNode module imps \<Rightarrow> spaces (d + 2) @ ''Names:'' \<in> set (render n d st)
    | _ \<Rightarrow> True"
proof (cases n)
  case (FunctionCallNode callable arguments keyword_args)
  then show ?thesis using assms
    by (auto simp: layouts header_simps simp del: add_2_eq_Suc' dest!: header_in_child)
next
  case (ClassDefNode name bases body)
  then show ?thesis using assms
    by (auto simp: layouts header_simps simp del: add_2_eq_Suc' dest!: header_in_child)
next
  case (ListNode elements)
  then show ?thesis using assms
    by (auto simp: layouts header_simps simp del: add_2_eq_Suc' dest!: header_in_child)
next
  case (DictNode items)
  then show ?thesis using assms
    by (auto simp: layouts header_simps simp del: add_2_eq_Suc' dest!: header_in_child)
next
  case (IfNode condition then_body else_body)
  then show ?thesis using assms
    by (auto simp: layouts header_simps simp del: add_2_eq_Suc' dest!: header_in_child)
qed (use assms in \<open>simp_all add: layouts\<close>)

theorem guarded_sub_headers_witness:
  "concrete (ListNode [PassNode])
   \<and> (spaces (0 + 2) @ ''Elements:'' \<in> set (render (ListNode [PassNode]) 0 initial_state)
        \<longleftrightarrow> [PassNode] \<noteq> [])
   \<and> concrete (ListNode [])
   \<and> (spaces (0 + 2) @ ''Elements:'' \<in> set (render (ListNode []) 0 initial_state)
        \<longleftrightarrow> ([] :: node list) \<noteq> [])"
  using guarded_sub_headers [of "ListNode [PassNode]" 0 initial_state]
        guarded_sub_headers [of "ListNode []" 0 initial_state]
  by simp

text \<open>
  Claim C2 as stated fails: a call without arguments, a class without bases, an empty
  list, an empty dictionary and an if without else-body print no sub-header for the
  empty group.
\<close>

theorem empty_group_header_counterexample:
  "render (FunctionCallNode (IdentifierNode ''f'') [] []) 0 initial_state =
     [''FunctionCall'', ''  Callable:'', ''    Identifier(f)'']
   \<and> render (ClassDefNode ''C'' [] [PassNode]) 0 initial_state =
       [''ClassDef(C)'', ''  Body:'', ''    Pass'']
   \<and> render (ListNode []) 0 initial_state = [''List'']
   \<and> render (DictNode []) 0 initial_state = [''Dict'']
   \<and> render (IfNode (BoolLiteralNode True) [PassNode] []) 0 initial_state =
       [''If'', ''  Condition:'', ''    BoolLiteral(True)'', ''  Then:'', ''    Pass'']
   \<and> ''  Elements:'' \<notin> set (render (ListNode []) 0 initial_state)"
  by code_simp


section \<open>Order of the entries\<close>

text \<open>
  Claim C3. For a tree of concrete nodes, the part of the rendering that belongs to a
  list-valued field is the concatenation, in the order of the list, of what each entry
  prints: each entry once, none left out. This holds for the body, parameters, bases,
  elements, positional arguments, keyword arguments (in insertion order), dictionary
  items and imported names.
\<close>

theorem order_preservation:
  assumes "concrete n"
  shows "case n of
      FunctionCallNode callable arguments keyword_args \<Rightarrow>
        render n d st =
          (spaces d @ ''FunctionCall'')
          # (spaces (d + 2) @ ''Callable:'') # render callable (d + 4) st
          @ (if arguments \<noteq> [] then
               (spaces (d + 2) @ ''Arguments:'')
               # concat (map (\<lambda>arg. render arg (d + 4) st) arguments)
             else [])
          @ (if keyword_args \<noteq> [] then
               (spaces (d + 2) @ ''Keyword Arguments:'')
               # concat (map (\<lambda>(key, v). (spaces (d + 4) @ key @ '':'') # render v (d + 6) st)
                             keyword_args)
             else [])
    | FunctionDefNode name parameters body \<Rightarrow>
        render n d st =
          (spaces d @ ''FunctionDef('' @ name @ '')'')
          # (spaces (d + 2) @ ''Parameters:'')
          # concat (map (\<lambda>p. render p (d + 4) st) parameters)
          @ (spaces (d + 2) @ ''Body:'') # concat (map (\<lambda>s. render s (d + 4) st) body)
    | ClassDefNode name bases body \<Rightarrow>
        render n d st =
          (spaces d @ ''ClassDef('' @ name @ '')'')
          # (if bases \<noteq> [] then
               (spaces (d + 2) @ ''Bases:'') # concat (map (\<lambda>b. render b (d + 4) st) bases)
             else [])
          @ (spaces (d + 2) @ ''Body:'') # concat (map (\<lambda>s. render s (d + 4) st) body)
    | FromImportNode module imps \<Rightarrow>
        render n d st =
          (spaces d @ ''FromImport('' @ module @ '')'')
          # (spaces (d + 2) @ ''Names:'')
          # map (\<lambda>(name, alias). spaces (d + 4) @ name
                   @ (if truthy_str alias then '' as '' @ the alias else [])) imps
    | IfNode condition then_body else_body \<Rightarrow>
        render n d st =
          (spaces d @ ''If'')
          # (spaces (d + 2) @ ''Condition:'') # render condition (d + 4) st
          @ (spaces (d + 2) @ ''Then:'') # concat (map (\<lambda>s. render s (d + 4) st) then_body)
          @ (if else_body \<noteq> [] then
               (spaces (d + 2) @ ''Else:'')
               # concat (map (\<lambda>s. render s (d + 4) st) else_body)
             else [])
    | WhileNode condition body \<Rightarrow>
        render n d st =
          (spaces d @ ''While'')
          # (spaces (d + 2) @ ''Condition:'') # render condition (d + 4) st
          @ (spaces (d + 2) @ ''Body:'') # concat (map (\<lambda>s. render s (d + 4) st) body)
    | ForNode target iterable body \<Rightarrow>
        render n d st =
          (spaces d @ ''For'')
          # (spaces (d + 2) @ ''Target:'') # render target (d + 4) st
          @ (spaces (d + 2) @ ''Iterable:'') # render iterable (d + 4) st
          @ (spaces (d + 2) @ ''Body:'') # concat (map (\<lambda>s. render s (d + 4) st) body)
    | ListNode elements \<Rightarrow>
        render n d st =
          (spaces d @ ''List'')
          # (if elements \<noteq> [] then
               (spaces (d + 2) @ ''Elements:'')
               # concat (map (\<lambda>e. render e (d + 4) st) elements)
             else [])
    | DictNode items \<Rightarrow>
        render n d st =
          (spaces d @ ''Dict'')
          # (if items \<noteq> [] then
               (spaces (d + 2) @ ''Items:'')
               # concat (map (\<lambda>(key, v).
                     (spaces (d + 4) @ ''Key:'') # render key (d + 6) st
                     @ (spaces (d + 4) @ ''Value:'') # render v (d + 6) st) items)
             else [])
    | _ \<Rightarrow> True"
  using assms by (cases n) (simp_all add: layouts case_prod_unfold del: add_2_eq_Suc')

theorem order_preservation_witness:
  "concrete (ListNode [IntLiteralNode 1, IntLiteralNode 2, IntLiteralNode 1])
   \<and> render (ListNode [IntLiteralNode 1, IntLiteralNode 2, IntLiteralNode 1]) 0 initial_state =
       (spaces 0 @ ''List'')
       # (spaces (0 + 2) @ ''Elements:'')
       # concat (map (\<lambda>e. render e (0 + 4) initial_state)
                   [IntLiteralNode 1, IntLiteralNode 2, IntLiteralNode 1])
   \<and> render (ListNode [IntLiteralNode 1, IntLiteralNode 2, IntLiteralNode 1]) 0 initial_state =
       [''List'', ''  Elements:'', ''    IntLiteral(1)'', ''    IntLiteral(2)'',
        ''    IntLiteral(1)'']"
proof -
  let ?n = "ListNode [IntLiteralNode 1, IntLiteralNode 2, IntLiteralNode 1]"
  have c: "concrete ?n" by simp
  have "render ?n 0 initial_state =
       (spaces 0 @ ''List'')
       # (spaces (0 + 2) @ ''Elements:'')
       # concat (map (\<lambda>e. render e (0 + 4) initial_state)
                   [IntLiteralNode 1, IntLiteralNode 2, IntLiteralNode 1])"
    using order_preservation [OF c, of 0 initial_state] by simp
  moreover have "render ?n 0 initial_state =
       [''List'', ''  Elements:'', ''    IntLiteral(1)'', ''    IntLiteral(2)'',
        ''    IntLiteral(1)'']"
    by code_simp
  ultimately show ?thesis using c by blast
qed


section \<open>Determinism and frame\<close>

text \<open>
  Claim C4. Two runs of \<^verbatim>\<open>print_node\<close> on the same node at the same depth, started
  in any two states, end the same way and emit the same strings, hence the same
  characters; in particular a second run right after the first emits what the first did.
\<close>

theorem print_node_deterministic:
  fixes st1 st2 :: "'w pystate"
  shows "outcome (print_node n d) st1 = outcome (print_node n d) st2
   \<and> render n d st1 = render n d st2
   \<and> text_of (render n d st1) = text_of (render n d st2)
   \<and> render n d (snd (print_node n d st1)) = render n d st1"
proof -
  obtain r ls where e: "emits (print_node n d :: ('w, unit) action) r ls"
    using uniform_print_node [of n d] unfolding uniform_def by blast
  have "outcome (print_node n d) st = r" for st :: "'w pystate"
    using e by (rule emits_outcome)
  moreover have "render n d st = ls" for st :: "'w pystate"
    using e by (rule emits_printed)
  ultimately show ?thesis by simp
qed


text \<open>
  Claim C5. \<^verbatim>\<open>print_node\<close> changes nothing but the output: the state after the call
  is the state before it with the emitted strings appended to the output. The rest of
  the program state is as before, and what had been printed before stays as it was. The
  node is a value that the call cannot change.
\<close>

theorem print_node_frame:
  fixes st :: "'w pystate"
  shows "snd (print_node n d st) = st\<lparr>stdout := stdout st @ render n d st\<rparr>
   \<and> world (snd (print_node n d st)) = world st
   \<and> prefix (stdout st) (stdout (snd (print_node n d st)))"
proof -
  obtain r ls where e: "emits (print_node n d :: ('w, unit) action) r ls"
    using uniform_print_node [of n d] unfolding uniform_def by blast
  then have "print_node n d st = (r, st\<lparr>stdout := stdout st @ ls\<rparr>)"
    unfolding emits_def by blast
  moreover have "render n d st = ls" using e by (rule emits_printed)
  ultimately show ?thesis by simp
qed


section \<open>Rendering is lossy\<close>

text \<open>
  Claim C7. Two different nodes render alike: an import of the module \<^verbatim>\<open>m as n\<close>
  without alias, and an import of the module \<^verbatim>\<open>m\<close> with alias \<^verbatim>\<open>n\<close>. So the emitted text
  does not determine the tree.
\<close>

theorem render_not_injective:
  "ImportNode ''m as n'' None \<noteq> ImportNode ''m'' (Some ''n'')
   \<and> print_node (ImportNode ''m as n'' None) d st = print_node (ImportNode ''m'' (Some ''n'')) d st
   \<and> text_of (render (ImportNode ''m as n'' None) d st)
       = text_of (render (ImportNode ''m'' (Some ''n'')) d st)
   \<and> \<not> inj (\<lambda>n. text_of (render n d st))"
proof -
  have neq: "ImportNode ''m as n'' None \<noteq> ImportNode ''m'' (Some ''n'')" by simp
  have eq: "print_node (ImportNode ''m as n'' None) d st
            = print_node (ImportNode ''m'' (Some ''n'')) d st"
    by (simp add: print_node.simps)
  then have t: "text_of (render (ImportNode ''m as n'' None) d st)
       = text_of (render (ImportNode ''m'' (Some ''n'')) d st)"
    by (simp add: printed_def)
  have "\<not> inj (\<lambda>n. text_of (render n d st))"
    using neq t unfolding inj_def by blast
  with neq eq t show ?thesis by blast
qed

section \<open>Aliases\<close>

text \<open>
  Claim C10. An import with the empty string as alias prints what an import without
  alias prints, and so does a from-import entry. An import prints the suffix
  \<^verbatim>\<open> as <alias>\<close> exactly when its alias is a non-empty string, and otherwise the module
  name alone; the line of each from-import entry, two lines below the tag line, has the
  suffix after the name exactly when that entry's alias is a non-empty string.
\<close>

theorem alias_suffix:
  "print_node (ImportNode module (Some [])) d st = print_node (ImportNode module None) d st
   \<and> print_node (FromImportNode module (pre @ (name, Some []) # post)) d st
       = print_node (FromImportNode module (pre @ (name, None) # post)) d st
   \<and> (render (ImportNode module alias) d st
         = [spaces d @ ''Import('' @ module @ '' as '' @ a @ '')'']
        \<longleftrightarrow> alias = Some a \<and> a \<noteq> [])
   \<and> (render (ImportNode module alias) d st = [spaces d @ ''Import('' @ module @ '')'']
        \<longleftrightarrow> alias = None \<or> alias = Some [])
   \<and> length (render (FromImportNode module imps) d st) = length imps + 2
   \<and> (\<forall>i < length imps.
         (render (FromImportNode module imps) d st ! (i + 2)
            = spaces (d + 4) @ fst (imps ! i) @ '' as '' @ a
          \<longleftrightarrow> snd (imps ! i) = Some a \<and> a \<noteq> [])
       \<and> (render (FromImportNode module imps) d st ! (i + 2)
            = spaces (d + 4) @ fst (imps ! i)
          \<longleftrightarrow> snd (imps ! i) = None \<or> snd (imps ! i) = Some []))"
proof -
  have 1: "print_node (ImportNode module (Some [])) d st
            = print_node (ImportNode module None) d st"
    by (simp add: print_node.simps)
  have 2: "print_node (FromImportNode module (pre @ (name, Some []) # post)) d st
       = print_node (FromImportNode module (pre @ (name, None) # post)) d st"
  proof -
    have "for_each f (pre @ (name, Some []) # post) = for_each f (pre @ (name, None) # post)"
      if "f (name, Some []) = f (name, None)"
      for f :: "string \<times> string option \<Rightarrow> ('a, unit) action"
      using that by (induction pre) simp_all
    then show ?thesis by (simp add: print_node.simps Let_def)
  qed
  have 3: "(render (ImportNode module alias) d st
         = [spaces d @ ''Import('' @ module @ '' as '' @ a @ '')''])
        = (alias = Some a \<and> a \<noteq> [])"
    using import_line_suffix [of "module" "alias" a] by (simp add: layout_Import)
  have 4: "(render (ImportNode module alias) d st = [spaces d @ ''Import('' @ module @ '')''])
        = (alias = None \<or> alias = Some [])"
    using import_line_plain [of "module" "alias"] by (simp add: layout_Import)
  have 5: "length (render (FromImportNode module imps) d st) = length imps + 2"
    by (simp add: layout_FromImport)
  have 6: "(render (FromImportNode module imps) d st ! (i + 2)
            = spaces (d + 4) @ fst (imps ! i) @ '' as '' @ a)
          = (snd (imps ! i) = Some a \<and> a \<noteq> [])" if "i < length imps" for i
    using that import_entry_suffix [of "fst (imps ! i)" "snd (imps ! i)" a]
    by (simp add: layout_FromImport del: add_2_eq_Suc')
  have 7: "(render (FromImportNode module imps) d st ! (i + 2)
            = spaces (d + 4) @ fst (imps ! i))
          = (snd (imps ! i) = None \<or> snd (imps ! i) = Some [])" if "i < length imps" for i
    using that import_entry_plain [of "fst (imps ! i)" "snd (imps ! i)"]
    by (simp add: layout_FromImport del: add_2_eq_Suc')
  from 1 2 3 4 5 6 7 show ?thesis by blast
qed

theorem alias_suffix_witness:
  "(1 :: nat) < length [(''sqrt'', Some ''s''), (''pi'', Some []), (''e'', None)]
   \<and> snd ([(''sqrt'', Some ''s''), (''pi'', Some []), (''e'', None)] ! 1) = Some []
   \<and> render (FromImportNode ''math'' [(''sqrt'', Some ''s''), (''pi'', Some []), (''e'', None)])
         0 initial_state ! (1 + 2)
       = spaces (0 + 4) @ fst ([(''sqrt'', Some ''s''), (''pi'', Some []), (''e'', None)] ! 1)
   \<and> render (FromImportNode ''math'' [(''sqrt'', Some ''s''), (''pi'', Some []), (''e'', None)])
        0 initial_state
      = [''FromImport(math)'', ''  Names:'', ''    sqrt as s'', ''    pi'', ''    e'']"
proof -
  let ?imps = "[(''sqrt'', Some ''s''), (''pi'', Some []), (''e'', None :: string option)]"
  have l: "(1 :: nat) < length ?imps" by simp
  have s: "snd (?imps ! 1) = Some []" by simp
  have "render (FromImportNode ''math'' ?imps) 0 initial_state ! (1 + 2)
          = spaces (0 + 4) @ fst (?imps ! 1)"
    using alias_suffix [of "''math''" 0 initial_state "[]" "''x''" "[]" None "''s''" ?imps] l s
    by blast
  moreover have "render (FromImportNode ''math'' ?imps) 0 initial_state
      = [''FromImport(math)'', ''  Names:'', ''    sqrt as s'', ''    pi'', ''    e'']"
    by code_simp
  ultimately show ?thesis using l s by blast
qed

section \<open>Constructors\<close>

text \<open>
  Claim C8. Each constructor with a collection argument stores a list in the field: the
  list it was given, or the empty list when the argument was \<^verbatim>\<open>None\<close> or left out. A
  field of a node is a list by its type, so \<^verbatim>\<open>print_node\<close> has a list to go through;
  for the nodes built with nothing but omitted collections it completes and prints the
  tag line and the unguarded sub-headers.
\<close>

theorem constructors_default_empty:
  "FunctionCallNode_init callable_obj arguments keyword_args =
     FunctionCallNode callable_obj (case arguments of None \<Rightarrow> [] | Some xs \<Rightarrow> xs)
       (case keyword_args of None \<Rightarrow> [] | Some kv \<Rightarrow> kv)
   \<and> FunctionDefNode_init name parameters body =
       FunctionDefNode name (case parameters of None \<Rightarrow> [] | Some xs \<Rightarrow> xs)
         (case body of None \<Rightarrow> [] | Some xs \<Rightarrow> xs)
   \<and> ClassDefNode_init name bases body =
       ClassDefNode name (case bases of None \<Rightarrow> [] | Some xs \<Rightarrow> xs)
         (case body of None \<Rightarrow> [] | Some xs \<Rightarrow> xs)
   \<and> FromImportNode_init module imps =
       FromImportNode module (case imps of None \<Rightarrow> [] | Some xs \<Rightarrow> xs)
   \<and> IfNode_init condition then_body else_body =
       IfNode condition (case then_body of None \<Rightarrow> [] | Some xs \<Rightarrow> xs)
         (case else_body of None \<Rightarrow> [] | Some xs \<Rightarrow> xs)
   \<and> WhileNode_init condition body =
       WhileNode condition (case body of None \<Rightarrow> [] | Some xs \<Rightarrow> xs)
   \<and> ForNode_init target iterable body =
       ForNode target iterable (case body of None \<Rightarrow> [] | Some xs \<Rightarrow> xs)
   \<and> ListNode_init elements = ListNode (case elements of None \<Rightarrow> [] | Some xs \<Rightarrow> xs)
   \<and> DictNode_init items = DictNode (case items of None \<Rightarrow> [] | Some xs \<Rightarrow> xs)
   \<and> print_node (FunctionDefNode_init name None None) d st =
       (Inr (), st\<lparr>stdout := stdout st @
          [spaces d @ ''FunctionDef('' @ name @ '')'', spaces (d + 2) @ ''Parameters:'',
           spaces (d + 2) @ ''Body:'']\<rparr>)
   \<and> print_node (ClassDefNode_init name None None) d st =
       (Inr (), st\<lparr>stdout := stdout st @
          [spaces d @ ''ClassDef('' @ name @ '')'', spaces (d + 2) @ ''Body:'']\<rparr>)
   \<and> print_node (FromImportNode_init module None) d st =
       (Inr (), st\<lparr>stdout := stdout st @
          [spaces d @ ''FromImport('' @ module @ '')'', spaces (d + 2) @ ''Names:'']\<rparr>)
   \<and> print_node (ListNode_init None) d st =
       (Inr (), st\<lparr>stdout := stdout st @ [spaces d @ ''List'']\<rparr>)
   \<and> print_node (DictNode_init None) d st =
       (Inr (), st\<lparr>stdout := stdout st @ [spaces d @ ''Dict'']\<rparr>)"
  by (simp add: init_defs py_or_empty print_node.simps seq_def print_line_def skip_def
        del: add_2_eq_Suc')

section \<open>The base class\<close>

text \<open>
  Claim C9, as the code has it. \<^verbatim>\<open>print_node\<close> of the base class raises
  \<^verbatim>\<open>NotImplementedError\<close>. Rendering a tree of concrete nodes raises nothing. Every node
  that is not an instance of the base class prints at least its tag line, whatever its
  children are. There are 25 classes besides the base class, each with a node.
\<close>

theorem concrete_tree_never_raises:
  fixes st :: "'w pystate"
  shows "(concrete n \<longrightarrow> outcome (print_node n d) st = Inr ())
   \<and> outcome (print_node ASTNode d) st = Inl not_implemented
   \<and> exc_class not_implemented = NotImplementedError
   \<and> (n \<noteq> ASTNode \<longrightarrow> render n d st \<noteq> [])
   \<and> (class_of n = ASTNode_cls \<longleftrightarrow> n = ASTNode)
   \<and> (\<forall>c. \<exists>m. class_of m = c)
   \<and> card (UNIV - {ASTNode_cls}) = 25"
proof -
  have "outcome (print_node n d) st = Inr ()" if "concrete n"
    using ok_print_node [OF that] by (rule ok_outcome)
  moreover have "outcome (print_node ASTNode d) st = Inl not_implemented"
    by (simp add: print_node.simps outcome_def raise_def)
  moreover have "exc_class not_implemented = NotImplementedError"
    by (simp add: not_implemented_def)
  moreover have "render n d st \<noteq> []" if "n \<noteq> ASTNode"
    using that by (rule overrides_print)
  ultimately show ?thesis
    using class_of_base [of n] class_of_onto card_concrete_classes by blast
qed

theorem concrete_tree_never_raises_witness:
  "concrete (BinaryOpNode ''+'' (IntLiteralNode 1) (IntLiteralNode 2))
   \<and> outcome (print_node (BinaryOpNode ''+'' (IntLiteralNode 1) (IntLiteralNode 2)) 0)
        initial_state = Inr ()
   \<and> BinaryOpNode ''+'' ASTNode (IntLiteralNode 2) \<noteq> ASTNode
   \<and> render (BinaryOpNode ''+'' ASTNode (IntLiteralNode 2)) 0 initial_state \<noteq> []
   \<and> render (BinaryOpNode ''+'' ASTNode (IntLiteralNode 2)) 0 initial_state = [''BinaryOp(+)'']
   \<and> outcome (print_node (BinaryOpNode ''+'' ASTNode (IntLiteralNode 2)) 0) initial_state
       = Inl not_implemented"
proof -
  have c: "concrete (BinaryOpNode ''+'' (IntLiteralNode 1) (IntLiteralNode 2))" by simp
  have n: "BinaryOpNode ''+'' ASTNode (IntLiteralNode 2) \<noteq> ASTNode" by simp
  have "outcome (print_node (BinaryOpNode ''+'' (IntLiteralNode 1) (IntLiteralNode 2)) 0)
          initial_state = Inr ()"
    using concrete_tree_never_raises
            [of "BinaryOpNode ''+'' (IntLiteralNode 1) (IntLiteralNode 2)" 0 initial_state] c
    by blast
  moreover have "render (BinaryOpNode ''+'' ASTNode (IntLiteralNode 2)) 0 initial_state \<noteq> []"
    using concrete_tree_never_raises
            [of "BinaryOpNode ''+'' ASTNode (IntLiteralNode 2)" 0 initial_state] n
    by blast
  moreover have "render (BinaryOpNode ''+'' ASTNode (IntLiteralNode 2)) 0 initial_state
          = [''BinaryOp(+)'']"
    by code_simp
  moreover have "outcome (print_node (BinaryOpNode ''+'' ASTNode (IntLiteralNode 2)) 0)
          initial_state = Inl not_implemented"
    by code_simp
  ultimately show ?thesis using c n by blast
qed

text \<open>
  Claim C9 as stated counts 26 concrete variants: 26 is the number of classes with the
  base class, and 25 of them are concrete.
\<close>

theorem concrete_class_count_counterexample:
  "card (UNIV :: node_class set) = 26
   \<and> card ((UNIV :: node_class set) - {ASTNode_cls}) = 25
   \<and> card ((UNIV :: node_class set) - {ASTNode_cls}) \<noteq> 26"
  by (simp add: UNIV_node_class)

section \<open>Failing runs of the driver\<close>

text \<open>
  Claim C6, as the code has it. When the \<^verbatim>\<open>try\<close> block raises an exception derived
  from \<^verbatim>\<open>Exception\<close>, \<^verbatim>\<open>main\<close> prints one more line and returns 1: for
  \<^verbatim>\<open>FileNotFoundError\<close> the line \<^verbatim>\<open>Error: Could not open file\<close> with the input file, for
  \<^verbatim>\<open>SyntaxError\<close> the line \<^verbatim>\<open>Syntax Error:\<close> with the text of the exception, for any
  other the line \<^verbatim>\<open>Error:\<close> with its text. In particular a \<^verbatim>\<open>FileNotFoundError\<close> from
  \<^verbatim>\<open>read_file\<close> ends so. When the block completes, \<^verbatim>\<open>main\<close> returns 0.
\<close>

theorem main_failure_messages:
  fixes st :: "'w pystate"
  shows "(try_body read_file tokenize parse input_file st = (Inl e, st')
          \<and> exc_class e \<noteq> BaseExceptionOnly \<longrightarrow>
          main read_file tokenize parse input_file st =
            (Inr 1, st'\<lparr>stdout := stdout st' @
               [if exc_class e = FileNotFoundError
                  then ''Error: Could not open file '' @ input_file
                else if exc_class e = SyntaxError then ''Syntax Error: '' @ exc_str e
                else ''Error: '' @ exc_str e]\<rparr>))
   \<and> (read_file input_file st = (Inl e, st') \<and> exc_class e = FileNotFoundError \<longrightarrow>
          main read_file tokenize parse input_file st =
            (Inr 1, st'\<lparr>stdout := stdout st' @
               [''Error: Could not open file '' @ input_file]\<rparr>))
   \<and> (try_body read_file tokenize parse input_file st = (Inr (), st') \<longrightarrow>
          main read_file tokenize parse input_file st = (Inr 0, st'))"
proof -
  have a: "main read_file tokenize parse input_file st = except_clauses input_file e st'"
    if "try_body read_file tokenize parse input_file st = (Inl e, st')"
    using that by (simp add: main_def try_except_def)
  have 1: "main read_file tokenize parse input_file st =
            (Inr 1, st'\<lparr>stdout := stdout st' @
               [if exc_class e = FileNotFoundError
                  then ''Error: Could not open file '' @ input_file
                else if exc_class e = SyntaxError then ''Syntax Error: '' @ exc_str e
                else ''Error: '' @ exc_str e]\<rparr>)"
    if "try_body read_file tokenize parse input_file st = (Inl e, st')"
      and "exc_class e \<noteq> BaseExceptionOnly"
    unfolding a [OF that(1)] by (rule except_clauses_caught [OF that(2)])
  have 2: "main read_file tokenize parse input_file st =
            (Inr 1, st'\<lparr>stdout := stdout st' @
               [''Error: Could not open file '' @ input_file]\<rparr>)"
    if "read_file input_file st = (Inl e, st')" and "exc_class e = FileNotFoundError"
  proof -
    have "try_body read_file tokenize parse input_file st = (Inl e, st')"
      using that(1) by (rule try_body_read_file_raises)
    moreover have "exc_class e \<noteq> BaseExceptionOnly" using that(2) by simp
    ultimately show ?thesis using 1 that(2) by simp
  qed
  have 3: "main read_file tokenize parse input_file st = (Inr 0, st')"
    if "try_body read_file tokenize parse input_file st = (Inr (), st')"
    using that by (simp add: main_def try_except_def return_def)
  from 1 2 3 show ?thesis by blast
qed

theorem main_failure_messages_witness:
  "try_body (\<lambda>f. return ''x ='') (\<lambda>source. return ())
      (\<lambda>tokens. raise \<lparr>exc_class = SyntaxError, exc_str = ''Expected expression''\<rparr>)
      ''prog.py'' initial_state
     = (Inl \<lparr>exc_class = SyntaxError, exc_str = ''Expected expression''\<rparr>, initial_state)
   \<and> exc_class \<lparr>exc_class = SyntaxError, exc_str = ''Expected expression''\<rparr> \<noteq> BaseExceptionOnly
   \<and> main (\<lambda>f. return ''x ='') (\<lambda>source. return ())
        (\<lambda>tokens. raise \<lparr>exc_class = SyntaxError, exc_str = ''Expected expression''\<rparr>)
        ''prog.py'' initial_state
     = (Inr 1, \<lparr>stdout = [''Syntax Error: Expected expression''], world = ()\<rparr>)
   \<and> (\<lambda>f. raise \<lparr>exc_class = FileNotFoundError, exc_str = ''No such file''\<rparr>) ''prog.py''
        initial_state
     = (Inl \<lparr>exc_class = FileNotFoundError, exc_str = ''No such file''\<rparr>, initial_state)
   \<and> main (\<lambda>f. raise \<lparr>exc_class = FileNotFoundError, exc_str = ''No such file''\<rparr>)
        (\<lambda>source. return ()) (\<lambda>tokens. return []) ''prog.py'' initial_state
     = (Inr 1, \<lparr>stdout = [''Error: Could not open file prog.py''], world = ()\<rparr>)
   \<and> try_body (\<lambda>f. return ''pass'') (\<lambda>source. return ()) (\<lambda>tokens. return [PassNode])
        ''prog.py'' initial_state
     = (Inr (), \<lparr>stdout = [''Abstract Syntax Tree for prog.py:'', replicate 50 CHR ''-'',
                              ''Pass''], world = ()\<rparr>)
   \<and> main (\<lambda>f. return ''pass'') (\<lambda>source. return ()) (\<lambda>tokens. return [PassNode])
        ''prog.py'' initial_state
     = (Inr 0, \<lparr>stdout = [''Abstract Syntax Tree for prog.py:'', replicate 50 CHR ''-'',
                             ''Pass''], world = ()\<rparr>)"
proof -
  let ?s = "\<lparr>exc_class = SyntaxError, exc_str = ''Expected expression''\<rparr>"
  let ?e = "\<lparr>exc_class = FileNotFoundError, exc_str = ''No such file''\<rparr>"
  let ?out = "\<lparr>stdout = [''Abstract Syntax Tree for prog.py:'', replicate 50 CHR ''-'',
                          ''Pass''], world = ()\<rparr>"
  have b1: "try_body (\<lambda>f. return ''x ='') (\<lambda>source. return ()) (\<lambda>tokens. raise ?s)
              ''prog.py'' initial_state = (Inl ?s, initial_state)"
    by (simp add: try_body_def bind_def raise_def return_def)
  have c1: "exc_class ?s \<noteq> BaseExceptionOnly" by simp
  have m1: "main (\<lambda>f. return ''x ='') (\<lambda>source. return ()) (\<lambda>tokens. raise ?s)
              ''prog.py'' initial_state
     = (Inr 1, \<lparr>stdout = [''Syntax Error: Expected expression''], world = ()\<rparr>)"
    using main_failure_messages
            [of "\<lambda>f. return ''x =''" "\<lambda>source. return ()" "\<lambda>tokens. raise ?s" "''prog.py''"
                initial_state ?s initial_state] b1 c1
    by (simp add: initial_state_def)
  have b2: "(\<lambda>f. raise ?e) ''prog.py'' initial_state = (Inl ?e, initial_state)"
    by (simp add: raise_def)
  have m2: "main (\<lambda>f. raise ?e) (\<lambda>source. return ()) (\<lambda>tokens. return []) ''prog.py''
              initial_state
     = (Inr 1, \<lparr>stdout = [''Error: Could not open file prog.py''], world = ()\<rparr>)"
    using main_failure_messages
            [of "\<lambda>f. raise ?e" "\<lambda>source. return ()" "\<lambda>tokens. return []" "''prog.py''"
                initial_state ?e initial_state] b2
    by (simp add: initial_state_def raise_def)
  have b3: "try_body (\<lambda>f. return ''pass'') (\<lambda>source. return ()) (\<lambda>tokens. return [PassNode])
              ''prog.py'' initial_state = (Inr (), ?out)"
    by (simp add: try_body_def bind_def return_def seq_def print_line_def skip_def
          print_node.simps spaces_def initial_state_def)
  have m3: "main (\<lambda>f. return ''pass'') (\<lambda>source. return ()) (\<lambda>tokens. return [PassNode])
              ''prog.py'' initial_state = (Inr 0, ?out)"
    using main_failure_messages
            [of "\<lambda>f. return ''pass''" "\<lambda>source. return ()" "\<lambda>tokens. return [PassNode]"
                "''prog.py''" initial_state _ ?out] b3
    by blast
  from b1 c1 m1 b2 m2 b3 m3 show ?thesis by blast
qed

text \<open>
  Claim C6 as stated fails. The driver has three handlers, so however the four kinds of
  failure are raised as exceptions that it catches, two kinds get the same message for
  the same text. And an exception outside \<^verbatim>\<open>Exception\<close> leaves \<^verbatim>\<open>main\<close> with no message
  printed and no status returned.
\<close>

theorem taxonomy_prefix_counterexample:
  "\<not> (\<exists>cls :: taxonomy \<Rightarrow> exc_class.
        (\<forall>t. cls t \<noteq> BaseExceptionOnly)
        \<and> inj (\<lambda>t. printed (except_clauses ''prog.py'' \<lparr>exc_class = cls t, exc_str = ''x''\<rparr>)
                      initial_state))
   \<and> main (\<lambda>f. raise \<lparr>exc_class = BaseExceptionOnly, exc_str = ''interrupt''\<rparr>)
        (\<lambda>source. return ()) (\<lambda>tokens. return []) ''prog.py'' initial_state
     = (Inl \<lparr>exc_class = BaseExceptionOnly, exc_str = ''interrupt''\<rparr>, initial_state)"
proof -
  let ?g = "\<lambda>c. printed (except_clauses ''prog.py'' \<lparr>exc_class = c, exc_str = ''x''\<rparr>)
                    initial_state"
  have g: "?g c \<in> {[''Error: Could not open file prog.py''], [''Syntax Error: x''],
                    [''Error: x'']}" if "c \<noteq> BaseExceptionOnly" for c
    using that
    by (cases c) (simp_all add: printed_def except_clauses_def seq_def print_line_def
                     return_def initial_state_def)
  have "\<not> inj (\<lambda>t. ?g (cls t))" if "\<forall>t. cls t \<noteq> BaseExceptionOnly"
    for cls :: "taxonomy \<Rightarrow> exc_class"
  proof
    assume i: "inj (\<lambda>t. ?g (cls t))"
    have "range (\<lambda>t. ?g (cls t)) \<subseteq>
            {[''Error: Could not open file prog.py''], [''Syntax Error: x''], [''Error: x'']}"
      using g that by blast
    then have "card (range (\<lambda>t. ?g (cls t))) \<le>
            card {[''Error: Could not open file prog.py''], [''Syntax Error: x''], [''Error: x'']}"
      by (intro card_mono) simp_all
    then have "card (range (\<lambda>t. ?g (cls t))) \<le> 3" by simp
    moreover have "card (range (\<lambda>t. ?g (cls t))) = card (UNIV :: taxonomy set)"
      using i by (rule card_image)
    ultimately show False by (simp add: card_taxonomy)
  qed
  moreover have "main (\<lambda>f. raise \<lparr>exc_class = BaseExceptionOnly, exc_str = ''interrupt''\<rparr>)
        (\<lambda>source. return ()) (\<lambda>tokens. return []) ''prog.py'' initial_state
     = (Inl \<lparr>exc_class = BaseExceptionOnly, exc_str = ''interrupt''\<rparr>, initial_state)"
    by (simp add: main_def try_except_def try_body_def bind_def raise_def except_clauses_def)
  ultimately show ?thesis by blast
qed

end
